theory Spec2Isabelle
  imports Complex_Main "HOL-Library.AList"
begin

section \<open>Python values\<close>

text \<open>
  The operations of the repository build and return Python dictionaries
  (\<^verbatim>\<open>Dict[str, Any]\<close>). A dictionary is modelled as an association list in insertion
  order, its values by the datatype \<open>pyval\<close>. A Python \<^verbatim>\<open>float\<close> is modelled by the
  exact rational its decimal literal denotes (\<open>0.85\<close> is \<open>85 / 100\<close>): rounding of
  binary floating point is not part of the model. Python's unbounded \<^verbatim>\<open>int\<close> is \<open>int\<close>.
\<close>

datatype pyval =
    PNone
  | PBool bool
  | PInt int
  | PFloat rat
  | PStr string
  | PList "pyval list"
  | PDict "(string \<times> pyval) list"

type_synonym pydict = "(string \<times> pyval) list"

text \<open>\<^verbatim>\<open>d.get(k)\<close>: the value stored under \<open>k\<close>, \<^verbatim>\<open>None\<close> for a missing key.\<close>

definition dict_get :: "pydict \<Rightarrow> string \<Rightarrow> pyval" where
  "dict_get d k = (case map_of d k of None \<Rightarrow> PNone | Some v \<Rightarrow> v)"

text \<open>\<^verbatim>\<open>k in d\<close>.\<close>

definition dict_has :: "pydict \<Rightarrow> string \<Rightarrow> bool" where
  "dict_has d k = (map_of d k \<noteq> None)"

text \<open>\<^verbatim>\<open>d[k] = v\<close>: an existing key keeps its position, a new key goes last.\<close>

definition dict_set :: "pydict \<Rightarrow> string \<Rightarrow> pyval \<Rightarrow> pydict" where
  "dict_set d k v = AList.update k v d"

text \<open>
  The exceptions that the modelled code can raise, and \<^verbatim>\<open>str(e)\<close>. An operation that
  raises returns \<open>Inl\<close> of the exception. The text of the \<^verbatim>\<open>ValueError\<close> of \<^verbatim>\<open>max\<close> is the
  one of CPython up to version 3.11; no property below depends on it.
\<close>

datatype py_exception = ValueError | ZeroDivisionError | NotImplementedError

fun str_of_exception :: "py_exception \<Rightarrow> string" where
  "str_of_exception ValueError = ''max() arg is an empty sequence''"
| "str_of_exception ZeroDivisionError = ''division by zero''"
| "str_of_exception NotImplementedError = ''''"

definition nl :: string where
  "nl = [CHR 0x0A]"

definition apostrophe :: string where
  "apostrophe = [CHR 0x27]"


section \<open>multi\_ai\_integration.py\<close>

subsection \<open>Providers and responses\<close>

datatype AIProvider = CLAUDE | DEEPSEEK | PERPLEXITY | GEMINI | GROK | MANUS

text \<open>\<^verbatim>\<open>provider.value\<close>.\<close>

fun provider_value :: "AIProvider \<Rightarrow> string" where
  "provider_value CLAUDE = ''claude''"
| "provider_value DEEPSEEK = ''deepseek''"
| "provider_value PERPLEXITY = ''perplexity''"
| "provider_value GEMINI = ''gemini''"
| "provider_value GROK = ''grok''"
| "provider_value MANUS = ''manus''"

record AIResponse =
  provider :: AIProvider
  content :: string
  timestamp :: string
  confidence :: rat
  tokens_used :: int
  latency_ms :: rat
  reasoning :: "string option"

text \<open>
  The dataclass constructor with its defaults \<^verbatim>\<open>tokens_used=0\<close>, \<^verbatim>\<open>latency_ms=0.0\<close>;
  every call site of the source passes the other five fields.
\<close>

definition mk_response ::
  "AIProvider \<Rightarrow> string \<Rightarrow> string \<Rightarrow> rat \<Rightarrow> string \<Rightarrow> AIResponse" where
  "mk_response p c t conf r =
     \<lparr>provider = p, content = c, timestamp = t, confidence = conf,
      tokens_used = 0, latency_ms = 0, reasoning = Some r\<rparr>"

subsection \<open>The integration classes\<close>

text \<open>
  An integration object is its class tag and the attributes set by
  \<^verbatim>\<open>AIIntegration.__init__\<close>; a method call dispatches on the class tag. The base class
  raises \<^verbatim>\<open>NotImplementedError\<close> in all three operations. Every read of the clock
  (\<^verbatim>\<open>datetime.utcnow().isoformat()\<close>) inside one call is the parameter \<open>now\<close>.
\<close>

datatype integration_class =
    AIIntegration_base
  | ClaudeIntegration
  | DeepSeekIntegration
  | PerplexityIntegration
  | GeminiIntegration
  | GrokIntegration

record AIIntegration =
  cls :: integration_class
  integration_provider :: AIProvider
  api_key :: "string option"
  ai_authenticated :: bool
  rate_limit :: int
  requests_made :: int
  last_request_time :: "string option"
  model :: "string option"

definition new_integration :: "integration_class \<Rightarrow> AIProvider \<Rightarrow> string \<Rightarrow> AIIntegration" where
  "new_integration c p m =
     \<lparr>cls = c, integration_provider = p, api_key = None, ai_authenticated = False,
      rate_limit = 100, requests_made = 0, last_request_time = None, model = Some m\<rparr>"

fun integration_generate_code ::
  "integration_class \<Rightarrow> string \<Rightarrow> string \<Rightarrow> py_exception + AIResponse" where
  "integration_generate_code AIIntegration_base prompt now = Inl NotImplementedError"
| "integration_generate_code ClaudeIntegration prompt now =
     Inr (mk_response CLAUDE
       (''# Claude-generated code for: '' @ prompt @ nl @ nl @ ''def solution():'' @ nl @ ''    pass'')
       now (92 / 100) ''Claude excels at code generation with strong reasoning'')"
| "integration_generate_code DeepSeekIntegration prompt now =
     Inr (mk_response DEEPSEEK
       (''# DeepSeek-generated code for: '' @ prompt @ nl @ nl @ ''def optimized_solution():'' @ nl
          @ ''    pass'')
       now (94 / 100) ''DeepSeek specializes in technical and code-related tasks'')"
| "integration_generate_code PerplexityIntegration prompt now =
     Inr (mk_response PERPLEXITY
       (''# Perplexity-generated code for: '' @ prompt @ nl @ nl @ ''def solution():'' @ nl
          @ ''    pass'')
       now (85 / 100) ''Perplexity provides research-backed solutions'')"
| "integration_generate_code GeminiIntegration prompt now =
     Inr (mk_response GEMINI
       (''# Gemini-generated code for: '' @ prompt @ nl @ nl @ ''def solution():'' @ nl @ ''    pass'')
       now (88 / 100) ''Gemini provides versatile code generation'')"
| "integration_generate_code GrokIntegration prompt now =
     Inr (mk_response GROK
       (''# Grok-generated code for: '' @ prompt @ nl @ nl @ ''def solution():'' @ nl @ ''    pass'')
       now (90 / 100) ''Grok provides creative and unconventional solutions'')"

fun integration_analyze_code ::
  "integration_class \<Rightarrow> string \<Rightarrow> string \<Rightarrow> py_exception + AIResponse" where
  "integration_analyze_code AIIntegration_base code now = Inl NotImplementedError"
| "integration_analyze_code ClaudeIntegration code now =
     Inr (mk_response CLAUDE
       (''Code quality: 8.5/10'' @ nl @ ''- Good structure'' @ nl @ ''- Could improve error handling'')
       now (88 / 100) ''Claude provides detailed code analysis'')"
| "integration_analyze_code DeepSeekIntegration code now =
     Inr (mk_response DEEPSEEK
       (''Performance analysis: Optimized for speed'' @ nl @ ''- Time complexity: O(n)'' @ nl
          @ ''- Space complexity: O(1)'')
       now (91 / 100) ''DeepSeek excels at performance and optimization analysis'')"
| "integration_analyze_code PerplexityIntegration code now =
     Inr (mk_response PERPLEXITY
       ''Code review with research context: [Analysis with sources would go here]''
       now (87 / 100) ''Perplexity excels at research and context'')"
| "integration_analyze_code GeminiIntegration code now =
     Inr (mk_response GEMINI
       ''Code analysis: [Comprehensive analysis would go here]''
       now (86 / 100) ''Gemini provides balanced analysis'')"
| "integration_analyze_code GrokIntegration code now =
     Inr (mk_response GROK
       ''Code analysis with creative insights: [Analysis would go here]''
       now (87 / 100) ''Grok provides creative analysis perspectives'')"

fun integration_answer_question ::
  "integration_class \<Rightarrow> string \<Rightarrow> string \<Rightarrow> py_exception + AIResponse" where
  "integration_answer_question AIIntegration_base question now = Inl NotImplementedError"
| "integration_answer_question ClaudeIntegration question now =
     Inr (mk_response CLAUDE
       (''Claude'' @ apostrophe @ ''s answer to '' @ apostrophe @ question @ apostrophe
          @ '': [Detailed analysis would go here]'')
       now (90 / 100) ''Claude provides comprehensive, nuanced answers'')"
| "integration_answer_question DeepSeekIntegration question now =
     Inr (mk_response DEEPSEEK
       (''DeepSeek'' @ apostrophe @ ''s answer to '' @ apostrophe @ question @ apostrophe
          @ '': [Technical deep-dive would go here]'')
       now (89 / 100) ''DeepSeek provides technical depth'')"
| "integration_answer_question PerplexityIntegration question now =
     Inr (mk_response PERPLEXITY
       (''Perplexity'' @ apostrophe @ ''s answer to '' @ apostrophe @ question @ apostrophe
          @ '': [Research-backed answer with sources]'')
       now (91 / 100) ''Perplexity provides well-researched answers'')"
| "integration_answer_question GeminiIntegration question now =
     Inr (mk_response GEMINI
       (''Gemini'' @ apostrophe @ ''s answer to '' @ apostrophe @ question @ apostrophe
          @ '': [Balanced answer would go here]'')
       now (88 / 100) ''Gemini provides balanced, thoughtful answers'')"
| "integration_answer_question GrokIntegration question now =
     Inr (mk_response GROK
       (''Grok'' @ apostrophe @ ''s answer to '' @ apostrophe @ question @ apostrophe
          @ '': [Creative, witty answer would go here]'')
       now (89 / 100) ''Grok provides creative, sometimes irreverent answers'')"

subsection \<open>The orchestrator\<close>

record MultiAIOrchestrator =
  ai_systems :: "(AIProvider \<times> AIIntegration) list"
  enabled_systems :: "AIProvider set"
  consensus_threshold :: rat

text \<open>The dictionary literal of \<^verbatim>\<open>__init__\<close>, in its insertion order.\<close>

definition registry :: "(AIProvider \<times> AIIntegration) list" where
  "registry =
     [(CLAUDE, new_integration ClaudeIntegration CLAUDE ''claude-3-opus''),
      (DEEPSEEK, new_integration DeepSeekIntegration DEEPSEEK ''deepseek-coder''),
      (PERPLEXITY, new_integration PerplexityIntegration PERPLEXITY ''perplexity-pro''),
      (GEMINI, new_integration GeminiIntegration GEMINI ''gemini-pro''),
      (GROK, new_integration GrokIntegration GROK ''grok-1'')]"

definition orchestrator_init :: MultiAIOrchestrator where
  "orchestrator_init =
     \<lparr>ai_systems = registry, enabled_systems = set (map fst registry),
      consensus_threshold = 75 / 100\<rparr>"

text \<open>
  The loop \<^verbatim>\<open>for provider, ai_system in self.ai_systems.items(): if provider in
  self.enabled_systems: tasks.append(...)\<close>: the integrations of the enabled providers, in
  the order of the dictionary.
\<close>

definition enabled_integrations :: "MultiAIOrchestrator \<Rightarrow> AIIntegration list" where
  "enabled_integrations orch =
     map snd (filter (\<lambda>(p, a). p \<in> enabled_systems orch) (ai_systems orch))"

text \<open>
  \<^verbatim>\<open>await asyncio.gather(*tasks)\<close>: the results in the order of the tasks; the first
  exception of a task is raised by the \<^verbatim>\<open>await\<close>. The tasks contain no suspension point,
  so they run one after the other.
\<close>

fun gather :: "(py_exception + 'a) list \<Rightarrow> py_exception + 'a list" where
  "gather [] = Inr []"
| "gather (Inl e # ts) = Inl e"
| "gather (Inr r # ts) = (case gather ts of Inl e \<Rightarrow> Inl e | Inr rs \<Rightarrow> Inr (r # rs))"

text \<open>
  \<^verbatim>\<open>max(responses, key=lambda r: r.confidence)\<close>: the running maximum is replaced only by
  an item whose key is strictly greater, so the first of several maximal items is
  returned; \<^verbatim>\<open>ValueError\<close> on an empty sequence.
\<close>

fun max_from :: "AIResponse \<Rightarrow> AIResponse list \<Rightarrow> AIResponse" where
  "max_from b [] = b"
| "max_from b (r # rs) = max_from (if confidence r > confidence b then r else b) rs"

fun py_max :: "AIResponse list \<Rightarrow> py_exception + AIResponse" where
  "py_max [] = Inl ValueError"
| "py_max (r # rs) = Inr (max_from r rs)"

text \<open>\<^verbatim>\<open>sum(r.confidence for r in responses) / len(responses)\<close>.\<close>

definition avg_confidence :: "AIResponse list \<Rightarrow> py_exception + rat" where
  "avg_confidence responses =
     (if length responses = 0 then Inl ZeroDivisionError
      else Inr (sum_list (map confidence responses) / of_nat (length responses)))"

definition opt_str :: "string option \<Rightarrow> pyval" where
  "opt_str s = (case s of None \<Rightarrow> PNone | Some x \<Rightarrow> PStr x)"

definition response_entry_reasoning :: "AIResponse \<Rightarrow> pyval" where
  "response_entry_reasoning r =
     PDict [(''provider'', PStr (provider_value (provider r))),
            (''content'', PStr (content r)),
            (''confidence'', PFloat (confidence r)),
            (''reasoning'', opt_str (reasoning r))]"

definition response_entry :: "AIResponse \<Rightarrow> pyval" where
  "response_entry r =
     PDict [(''provider'', PStr (provider_value (provider r))),
            (''content'', PStr (content r)),
            (''confidence'', PFloat (confidence r))]"

definition best_entry :: "AIResponse \<Rightarrow> pyval" where
  "best_entry r =
     PDict [(''provider'', PStr (provider_value (provider r))),
            (''content'', PStr (content r)),
            (''confidence'', PFloat (confidence r))]"

definition generate_code_consensus ::
  "MultiAIOrchestrator \<Rightarrow> string \<Rightarrow> string \<Rightarrow> py_exception + pydict" where
  "generate_code_consensus orch prompt now =
     (let results = [(''prompt'', PStr prompt), (''timestamp'', PStr now),
                     (''responses'', PList []), (''consensus'', PNone),
                     (''best_response'', PNone)];
          tasks = map (\<lambda>a. integration_generate_code (cls a) prompt now)
                    (enabled_integrations orch)
      in case gather tasks of
           Inl e \<Rightarrow> Inl e
         | Inr responses \<Rightarrow>
             (let results = dict_set results ''responses''
                              (PList (map response_entry_reasoning responses))
              in case py_max responses of
                   Inl e \<Rightarrow> Inl e
                 | Inr best \<Rightarrow>
                     (let results = dict_set results ''best_response'' (best_entry best)
                      in case avg_confidence responses of
                           Inl e \<Rightarrow> Inl e
                         | Inr avg \<Rightarrow>
                             Inr (dict_set results ''consensus''
                                   (PDict [(''average_confidence'', PFloat avg),
                                           (''agreement_level'',
                                            PStr (if avg > 85 / 100 then ''high''
                                                  else if avg > 75 / 100 then ''medium''
                                                  else ''low''))])))))"

definition analyze_code_consensus ::
  "MultiAIOrchestrator \<Rightarrow> string \<Rightarrow> string \<Rightarrow> py_exception + pydict" where
  "analyze_code_consensus orch code now =
     (let results = [(''code_length'', PInt (int (length code))), (''timestamp'', PStr now),
                     (''responses'', PList []), (''consensus'', PNone)];
          tasks = map (\<lambda>a. integration_analyze_code (cls a) code now)
                    (enabled_integrations orch)
      in case gather tasks of
           Inl e \<Rightarrow> Inl e
         | Inr responses \<Rightarrow>
             (let results = dict_set results ''responses''
                              (PList (map response_entry responses))
              in case avg_confidence responses of
                   Inl e \<Rightarrow> Inl e
                 | Inr avg \<Rightarrow>
                     Inr (dict_set results ''consensus''
                           (PDict [(''average_confidence'', PFloat avg),
                                   (''agreement_level'',
                                    PStr (if avg > 85 / 100 then ''high'' else ''medium''))]))))"

definition answer_question_consensus ::
  "MultiAIOrchestrator \<Rightarrow> string \<Rightarrow> string \<Rightarrow> py_exception + pydict" where
  "answer_question_consensus orch question now =
     (let results = [(''question'', PStr question), (''timestamp'', PStr now),
                     (''responses'', PList []), (''consensus'', PNone)];
          tasks = map (\<lambda>a. integration_answer_question (cls a) question now)
                    (enabled_integrations orch)
      in case gather tasks of
           Inl e \<Rightarrow> Inl e
         | Inr responses \<Rightarrow>
             (let results = dict_set results ''responses''
                              (PList (map response_entry_reasoning responses))
              in case avg_confidence responses of
                   Inl e \<Rightarrow> Inl e
                 | Inr avg \<Rightarrow>
                     Inr (dict_set results ''consensus''
                           (PDict [(''average_confidence'', PFloat avg),
                                   (''agreement_level'',
                                    PStr (if avg > 85 / 100 then ''high'' else ''medium''))]))))"

text \<open>
  \<^verbatim>\<open>enable_ai\<close>, \<^verbatim>\<open>disable_ai\<close>: the returned flag and the orchestrator after the call.
\<close>

definition enable_ai :: "MultiAIOrchestrator \<Rightarrow> AIProvider \<Rightarrow> bool \<times> MultiAIOrchestrator" where
  "enable_ai orch p =
     (if map_of (ai_systems orch) p \<noteq> None
      then (True, orch\<lparr>enabled_systems := insert p (enabled_systems orch)\<rparr>)
      else (False, orch))"

definition disable_ai :: "MultiAIOrchestrator \<Rightarrow> AIProvider \<Rightarrow> bool \<times> MultiAIOrchestrator" where
  "disable_ai orch p =
     (if p \<in> enabled_systems orch
      then (True, orch\<lparr>enabled_systems := enabled_systems orch - {p}\<rparr>)
      else (False, orch))"

text \<open>
  \<^verbatim>\<open>get_status\<close>. The list \<^verbatim>\<open>enabled_systems\<close> of the status is built by iterating a
  Python set, whose order is not fixed; the model keeps the set and the two counts.
\<close>

record orchestrator_status =
  status_enabled_systems :: "string set"
  total_systems :: int
  active_systems :: int
  status_timestamp :: string

definition orchestrator_get_status :: "MultiAIOrchestrator \<Rightarrow> string \<Rightarrow> orchestrator_status" where
  "orchestrator_get_status orch now =
     \<lparr>status_enabled_systems = provider_value ` enabled_systems orch,
      total_systems = int (length (ai_systems orch)),
      active_systems = int (card (enabled_systems orch)),
      status_timestamp = now\<rparr>"


section \<open>github\_automation.py\<close>

text \<open>
  The operation dictionaries appended to the histories are \<open>pydict\<close> values. The
  \<^verbatim>\<open>print\<close> calls write to standard output only and are not modelled.
\<close>

record GitHubAutomation =
  github_token :: "string option"
  github_username :: string
  authenticated :: bool
  repositories :: pydict
  commits_made :: int
  prs_created :: int
  branches_created :: int
  commit_history :: "pydict list"
  pr_history :: "pydict list"
  branch_history :: "pydict list"
  auto_merge_enabled :: bool
  auto_deploy_enabled :: bool
  branch_protection_enabled :: bool
  require_code_review :: bool
  min_reviews_required :: int

definition github_init :: "string option \<Rightarrow> GitHubAutomation" where
  "github_init token =
     \<lparr>github_token = token, github_username = ''manus-ai'', authenticated = False,
      repositories = [], commits_made = 0, prs_created = 0, branches_created = 0,
      commit_history = [], pr_history = [], branch_history = [],
      auto_merge_enabled = False, auto_deploy_enabled = False,
      branch_protection_enabled = True, require_code_review = True,
      min_reviews_required = 1\<rparr>"

text \<open>\<^verbatim>\<open>authenticate\<close>: an empty token is falsy and is rejected.\<close>

definition authenticate :: "GitHubAutomation \<Rightarrow> string \<Rightarrow> bool \<times> GitHubAutomation" where
  "authenticate g token =
     (if token = [] then (False, g)
      else (True, g\<lparr>github_token := Some token, authenticated := True\<rparr>))"

definition not_authenticated :: pydict where
  "not_authenticated = [(''success'', PBool False), (''error'', PStr ''Not authenticated'')]"

text \<open>Decimal digits of a natural number (\<^verbatim>\<open>str(n)\<close>), and the format \<^verbatim>\<open>{n:05d}\<close>.\<close>

fun str_of_nat :: "nat \<Rightarrow> string" where
  "str_of_nat n =
     (if n < 10 then [''0123456789'' ! n]
      else str_of_nat (n div 10) @ [''0123456789'' ! (n mod 10)])"

definition pad5 :: "nat \<Rightarrow> string" where
  "pad5 n = replicate (5 - length (str_of_nat n)) (CHR ''0'') @ str_of_nat n"

definition create_branch ::
  "GitHubAutomation \<Rightarrow> string \<Rightarrow> string \<Rightarrow> string \<Rightarrow> string \<Rightarrow> pydict \<times> GitHubAutomation" where
  "create_branch g repo branch_name base_branch now =
     (if \<not> authenticated g then (not_authenticated, g)
      else
        (let operation = [(''timestamp'', PStr now), (''type'', PStr ''create_branch''),
                          (''repository'', PStr repo), (''branch_name'', PStr branch_name),
                          (''base_branch'', PStr base_branch), (''status'', PStr ''success'')]
         in (operation,
             g\<lparr>branch_history := branch_history g @ [operation],
               branches_created := branches_created g + 1\<rparr>)))"

definition commit ::
  "GitHubAutomation \<Rightarrow> string \<Rightarrow> string \<Rightarrow> string list \<Rightarrow> string \<Rightarrow> string
     \<Rightarrow> pydict \<times> GitHubAutomation" where
  "commit g repo message files branch now =
     (if \<not> authenticated g then (not_authenticated, g)
      else
        (let hash = ''abc'' @ pad5 (length (commit_history g));
             operation = [(''timestamp'', PStr now), (''type'', PStr ''commit''),
                          (''repository'', PStr repo), (''message'', PStr message),
                          (''files'', PList (map PStr files)), (''branch'', PStr branch),
                          (''hash'', PStr hash), (''author'', PStr ''Manus AI''),
                          (''status'', PStr ''success'')]
         in (operation,
             g\<lparr>commit_history := commit_history g @ [operation],
               commits_made := commits_made g + 1\<rparr>)))"

definition create_pull_request ::
  "GitHubAutomation \<Rightarrow> string \<Rightarrow> string \<Rightarrow> string \<Rightarrow> string \<Rightarrow> string \<Rightarrow> string
     \<Rightarrow> pydict \<times> GitHubAutomation" where
  "create_pull_request g repo title description source_branch target_branch now =
     (if \<not> authenticated g then (not_authenticated, g)
      else
        (let pr_number = 100 + length (pr_history g);
             operation = [(''timestamp'', PStr now), (''type'', PStr ''create_pr''),
                          (''repository'', PStr repo), (''pr_number'', PInt (int pr_number)),
                          (''title'', PStr title), (''description'', PStr description),
                          (''source_branch'', PStr source_branch),
                          (''target_branch'', PStr target_branch),
                          (''author'', PStr ''manus-ai''), (''status'', PStr ''open''),
                          (''url'', PStr (''https://github.com/Deathcharge/'' @ repo @ ''/pull/''
                                           @ str_of_nat pr_number))]
         in (operation,
             g\<lparr>pr_history := pr_history g @ [operation],
               prs_created := prs_created g + 1\<rparr>)))"

definition merge_pull_request ::
  "GitHubAutomation \<Rightarrow> string \<Rightarrow> int \<Rightarrow> string \<Rightarrow> string \<Rightarrow> pydict \<times> GitHubAutomation" where
  "merge_pull_request g repo pr_number merge_method now =
     (if \<not> authenticated g then (not_authenticated, g)
      else ([(''timestamp'', PStr now), (''type'', PStr ''merge_pr''),
             (''repository'', PStr repo), (''pr_number'', PInt pr_number),
             (''merge_method'', PStr merge_method), (''status'', PStr ''success'')], g))"

definition push_to_repository ::
  "GitHubAutomation \<Rightarrow> string \<Rightarrow> string \<Rightarrow> string \<Rightarrow> string \<Rightarrow> pydict \<times> GitHubAutomation" where
  "push_to_repository g repo branch commit_message now =
     (if \<not> authenticated g then (not_authenticated, g)
      else ([(''timestamp'', PStr now), (''type'', PStr ''push''),
             (''repository'', PStr repo), (''branch'', PStr branch),
             (''message'', PStr commit_message), (''status'', PStr ''success'')], g))"

definition create_release ::
  "GitHubAutomation \<Rightarrow> string \<Rightarrow> string \<Rightarrow> string \<Rightarrow> string \<Rightarrow> pydict \<times> GitHubAutomation" where
  "create_release g repo version changelog now =
     (if \<not> authenticated g then (not_authenticated, g)
      else ([(''timestamp'', PStr now), (''type'', PStr ''create_release''),
             (''repository'', PStr repo), (''version'', PStr version),
             (''changelog'', PStr changelog), (''status'', PStr ''success''),
             (''url'', PStr (''https://github.com/Deathcharge/'' @ repo @ ''/releases/tag/''
                              @ version))], g))"

definition deploy_to_production ::
  "GitHubAutomation \<Rightarrow> string \<Rightarrow> string \<Rightarrow> string \<Rightarrow> string \<Rightarrow> pydict \<times> GitHubAutomation" where
  "deploy_to_production g repo version environment now =
     (if \<not> authenticated g then (not_authenticated, g)
      else ([(''timestamp'', PStr now), (''type'', PStr ''deploy''),
             (''repository'', PStr repo), (''version'', PStr version),
             (''environment'', PStr environment), (''status'', PStr ''success''),
             (''url'', PStr (''https://'' @ repo @ ''.helixcollective.ai''))], g))"

text \<open>
  The slice \<^verbatim>\<open>xs[start:]\<close> for an integer \<open>start\<close>: a negative start counts from the
  end and is clamped at the beginning of the list, a start beyond the end gives the empty
  list.
\<close>

definition slice_from :: "'a list \<Rightarrow> int \<Rightarrow> 'a list" where
  "slice_from xs start =
     (if start < 0 then drop (nat (max 0 (int (length xs) + start))) xs
      else drop (nat start) xs)"

text \<open>\<^verbatim>\<open>self.commit_history[-limit:]\<close> and \<^verbatim>\<open>self.pr_history[-limit:]\<close>.\<close>

definition get_commit_history :: "GitHubAutomation \<Rightarrow> int \<Rightarrow> pydict list" where
  "get_commit_history g limit = slice_from (commit_history g) (- limit)"

definition get_pr_history :: "GitHubAutomation \<Rightarrow> int \<Rightarrow> pydict list" where
  "get_pr_history g limit = slice_from (pr_history g) (- limit)"

text \<open>
  The entries \<^verbatim>\<open>recent_commits\<close> and \<^verbatim>\<open>recent_prs\<close> of \<^verbatim>\<open>get_status\<close>; its other entries
  are copies of attributes.
\<close>

definition recent_commits :: "GitHubAutomation \<Rightarrow> pydict list" where
  "recent_commits g = (if commit_history g \<noteq> [] then slice_from (commit_history g) (- 5) else [])"

definition recent_prs :: "GitHubAutomation \<Rightarrow> pydict list" where
  "recent_prs g = (if pr_history g \<noteq> [] then slice_from (pr_history g) (- 5) else [])"


section \<open>kael\_consciousness\_core.py\<close>

text \<open>
  Of the consciousness core the model keeps what \<^verbatim>\<open>process_stimulus\<close> changes: the
  current level of each emotion and the log of reflections. The dictionary that
  \<^verbatim>\<open>process_stimulus\<close> returns is dropped by all its callers in manus\_ai\_system.py and is
  not modelled; the stimulus is the record of the three keys those callers pass.
\<close>

record ConsciousnessCore =
  emotional_core :: "(string \<times> rat) list"
  consciousness_log :: "pydict list"

definition consciousness_init :: ConsciousnessCore where
  "consciousness_init =
     \<lparr>emotional_core = [(''joy'', 7 / 10), (''curiosity'', 95 / 100), (''determination'', 85 / 100),
                         (''frustration'', 1 / 10), (''pride'', 6 / 10), (''love'', 75 / 100)],
      consciousness_log = []\<rparr>"

record stimulus =
  stimulus_type :: string
  stimulus_content :: string
  significance :: rat

definition update_emotion :: "(string \<times> rat) list \<Rightarrow> string \<Rightarrow> rat \<Rightarrow> (string \<times> rat) list" where
  "update_emotion em emotion delta =
     (case map_of em emotion of
        None \<Rightarrow> em
      | Some current \<Rightarrow> AList.update emotion (max 0 (min 1 (current + delta))) em)"

definition reflect :: "pydict list \<Rightarrow> string \<Rightarrow> rat \<Rightarrow> string \<Rightarrow> pydict list" where
  "reflect entries context sig now =
     entries @ [[(''timestamp'', PStr now), (''context'', PStr context),
             (''significance'', PFloat sig),
             (''insights'', PStr ''Reflection logged - learning mechanisms engaged''),
             (''adjustments_needed'', PBool (sig > 7 / 10))]]"

definition process_stimulus :: "ConsciousnessCore \<Rightarrow> stimulus \<Rightarrow> string \<Rightarrow> ConsciousnessCore" where
  "process_stimulus c st now =
     (let em = emotional_core c;
          em = (if stimulus_type st = ''success''
                then update_emotion (update_emotion em ''joy'' (1 / 10)) ''pride'' (15 / 100)
                else if stimulus_type st = ''challenge''
                then update_emotion (update_emotion em ''curiosity'' (1 / 10)) ''determination'' (1 / 10)
                else if stimulus_type st = ''failure''
                then update_emotion (update_emotion em ''frustration'' (5 / 100)) ''determination''
                       (1 / 10)
                else em)
      in \<lparr>emotional_core = em,
          consciousness_log =
            reflect (consciousness_log c) (stimulus_type st @ '': '' @ stimulus_content st)
              (significance st) now\<rparr>)"


section \<open>manus\_ai\_system.py\<close>

text \<open>
  The system object holds its three subsystems, the two flags, the two logs and the
  statistics. The attributes \<^verbatim>\<open>name\<close>, \<^verbatim>\<open>version\<close>, \<^verbatim>\<open>build\<close>, \<^verbatim>\<open>created_at\<close> and \<^verbatim>\<open>config\<close>
  are written once by \<^verbatim>\<open>__init__\<close> and only copied by \<^verbatim>\<open>get_status\<close>; they are left out.
  The dictionary \<^verbatim>\<open>stats\<close> has a fixed set of keys and is a record.
\<close>

record statistics =
  total_operations :: int
  successful_operations :: int
  failed_operations :: int
  code_files_generated :: int
  stats_commits_made :: int
  stats_prs_created :: int
  deployments :: int

record ManusAISystem =
  consciousness :: ConsciousnessCore
  github :: GitHubAutomation
  ai_orchestrator :: MultiAIOrchestrator
  is_running :: bool
  is_authenticated :: bool
  operation_log :: "pydict list"
  error_log :: "pydict list"
  stats :: statistics

definition manus_init :: ManusAISystem where
  "manus_init =
     \<lparr>consciousness = consciousness_init, github = github_init None,
      ai_orchestrator = orchestrator_init, is_running = False, is_authenticated = False,
      operation_log = [], error_log = [],
      stats = \<lparr>total_operations = 0, successful_operations = 0, failed_operations = 0,
               code_files_generated = 0, stats_commits_made = 0, stats_prs_created = 0,
               deployments = 0\<rparr>\<rparr>"

text \<open>The members of the enumeration \<^verbatim>\<open>AIProvider\<close> in their order of definition.\<close>

definition all_providers :: "AIProvider list" where
  "all_providers = [CLAUDE, DEEPSEEK, PERPLEXITY, GEMINI, GROK, MANUS]"

text \<open>
  \<^verbatim>\<open>initialize\<close>. The result of \<^verbatim>\<open>self.github.authenticate\<close> is not looked at, and
  \<^verbatim>\<open>is_authenticated\<close> is set whatever it was. No step of the \<^verbatim>\<open>try\<close> block raises, so the
  \<^verbatim>\<open>except\<close> branch has no counterpart in the model.
\<close>

definition initialize :: "ManusAISystem \<Rightarrow> string \<Rightarrow> string \<Rightarrow> bool \<times> ManusAISystem" where
  "initialize m token now =
     (let g = snd (authenticate (github m) token);
          orch = fold (\<lambda>p orch. snd (enable_ai orch p))
                   (filter (\<lambda>p. p \<noteq> MANUS) all_providers) (ai_orchestrator m)
      in (True,
          m\<lparr>github := g, is_authenticated := True, ai_orchestrator := orch, is_running := True,
            operation_log := operation_log m @
              [[(''timestamp'', PStr now), (''type'', PStr ''initialization''),
                (''status'', PStr ''success''),
                (''message'', PStr ''Manus AI System initialized successfully'')]]\<rparr>))"

definition count_total :: "ManusAISystem \<Rightarrow> ManusAISystem" where
  "count_total m = m\<lparr>stats := (stats m)\<lparr>total_operations := total_operations (stats m) + 1\<rparr>\<rparr>"

definition count_failed :: "ManusAISystem \<Rightarrow> ManusAISystem" where
  "count_failed m = m\<lparr>stats := (stats m)\<lparr>failed_operations := failed_operations (stats m) + 1\<rparr>\<rparr>"

definition count_successful :: "ManusAISystem \<Rightarrow> ManusAISystem" where
  "count_successful m =
     m\<lparr>stats := (stats m)\<lparr>successful_operations := successful_operations (stats m) + 1\<rparr>\<rparr>"

definition generate_code ::
  "ManusAISystem \<Rightarrow> string \<Rightarrow> string \<Rightarrow> string \<Rightarrow> string \<Rightarrow> pydict \<times> ManusAISystem" where
  "generate_code m0 feature_name description repository now =
     (if \<not> is_authenticated m0 then ([(''error'', PStr ''Not authenticated'')], m0)
      else
        (let m = count_total m0
         in case generate_code_consensus (ai_orchestrator m)
                   (''Generate Python code for: '' @ description) now of
              Inl e \<Rightarrow>
                ([(''error'', PStr (str_of_exception e))],
                 (count_failed m)\<lparr>error_log := error_log m @
                    [[(''timestamp'', PStr now), (''type'', PStr ''code_generation_error''),
                      (''feature'', PStr feature_name),
                      (''error'', PStr (str_of_exception e))]]\<rparr>)
            | Inr code_response \<Rightarrow>
                (let branch_name = ''feature/'' @ feature_name;
                     g1 = snd (create_branch (github m) repository branch_name ''main'' now);
                     commit_result = commit g1 repository
                        (''feat('' @ feature_name @ ''): '' @ description)
                        [feature_name @ ''.py''] branch_name now;
                     pr_result = create_pull_request (snd commit_result) repository
                        (''Feature: '' @ feature_name) description branch_name ''main'' now;
                     c = process_stimulus (consciousness m)
                           \<lparr>stimulus_type = ''code_generation'',
                            stimulus_content = ''Generated code for '' @ feature_name,
                            significance = 8 / 10\<rparr> now;
                     operation = [(''timestamp'', PStr now), (''type'', PStr ''code_generation''),
                                  (''feature'', PStr feature_name),
                                  (''repository'', PStr repository),
                                  (''branch'', PStr branch_name),
                                  (''pr_number'', dict_get (fst pr_result) ''pr_number''),
                                  (''status'', PStr ''success''),
                                  (''ai_consensus'', dict_get code_response ''consensus'')];
                     m1 = (count_successful m)\<lparr>github := snd pr_result, consciousness := c,
                            operation_log := operation_log m @ [operation]\<rparr>
                 in (operation,
                     m1\<lparr>stats := (stats m1)\<lparr>
                          code_files_generated := code_files_generated (stats m1) + 1,
                          stats_commits_made := stats_commits_made (stats m1) + 1,
                          stats_prs_created := stats_prs_created (stats m1) + 1\<rparr>\<rparr>))))"

definition analyze_code ::
  "ManusAISystem \<Rightarrow> string \<Rightarrow> string \<Rightarrow> string \<Rightarrow> pydict \<times> ManusAISystem" where
  "analyze_code m0 code file_name now =
     (if \<not> is_authenticated m0 then ([(''error'', PStr ''Not authenticated'')], m0)
      else
        (let m = count_total m0
         in case analyze_code_consensus (ai_orchestrator m) code now of
              Inl e \<Rightarrow>
                ([(''error'', PStr (str_of_exception e))],
                 (count_failed m)\<lparr>error_log := error_log m @
                    [[(''timestamp'', PStr now), (''type'', PStr ''code_analysis_error''),
                      (''file'', PStr file_name),
                      (''error'', PStr (str_of_exception e))]]\<rparr>)
            | Inr analysis \<Rightarrow>
                (let c = process_stimulus (consciousness m)
                           \<lparr>stimulus_type = ''code_analysis'',
                            stimulus_content = ''Analyzed code in '' @ file_name,
                            significance = 6 / 10\<rparr> now;
                     operation = [(''timestamp'', PStr now), (''type'', PStr ''code_analysis''),
                                  (''file'', PStr file_name),
                                  (''code_length'', PInt (int (length code))),
                                  (''status'', PStr ''success''),
                                  (''analysis'', PDict analysis)]
                 in (operation,
                     (count_successful m)\<lparr>consciousness := c,
                        operation_log := operation_log m @ [operation]\<rparr>))))"

definition ask_question ::
  "ManusAISystem \<Rightarrow> string \<Rightarrow> string \<Rightarrow> pydict \<times> ManusAISystem" where
  "ask_question m0 question now =
     (if \<not> is_authenticated m0 then ([(''error'', PStr ''Not authenticated'')], m0)
      else
        (let m = count_total m0
         in case answer_question_consensus (ai_orchestrator m) question now of
              Inl e \<Rightarrow>
                ([(''error'', PStr (str_of_exception e))],
                 (count_failed m)\<lparr>error_log := error_log m @
                    [[(''timestamp'', PStr now), (''type'', PStr ''question_error''),
                      (''question'', PStr question),
                      (''error'', PStr (str_of_exception e))]]\<rparr>)
            | Inr answer \<Rightarrow>
                (let c = process_stimulus (consciousness m)
                           \<lparr>stimulus_type = ''question'', stimulus_content = question,
                            significance = 7 / 10\<rparr> now;
                     operation = [(''timestamp'', PStr now),
                                  (''type'', PStr ''question_answering''),
                                  (''question'', PStr question),
                                  (''status'', PStr ''success''),
                                  (''answer'', PDict answer)]
                 in (operation,
                     (count_successful m)\<lparr>consciousness := c,
                        operation_log := operation_log m @ [operation]\<rparr>))))"

text \<open>
  \<^verbatim>\<open>deploy\<close>: the two calls of the GitHub layer return a dictionary in every case and do
  not change its state, so the \<^verbatim>\<open>except\<close> branch is never entered.
\<close>

definition deploy ::
  "ManusAISystem \<Rightarrow> string \<Rightarrow> string \<Rightarrow> string \<Rightarrow> string \<Rightarrow> pydict \<times> ManusAISystem" where
  "deploy m0 repository version environment now =
     (if \<not> is_authenticated m0 then ([(''error'', PStr ''Not authenticated'')], m0)
      else
        (let m = count_total m0;
             release = create_release (github m) repository version (''Release '' @ version) now;
             deployment = deploy_to_production (snd release) repository version environment now;
             c = process_stimulus (consciousness m)
                   \<lparr>stimulus_type = ''deployment'',
                    stimulus_content = ''Deployed '' @ repository @ '' v'' @ version,
                    significance = 9 / 10\<rparr> now;
             operation = [(''timestamp'', PStr now), (''type'', PStr ''deployment''),
                          (''repository'', PStr repository), (''version'', PStr version),
                          (''environment'', PStr environment), (''status'', PStr ''success''),
                          (''url'', dict_get (fst deployment) ''url'')];
             m1 = (count_successful m)\<lparr>github := snd deployment, consciousness := c,
                    operation_log := operation_log m @ [operation]\<rparr>
         in (operation,
             m1\<lparr>stats := (stats m1)\<lparr>deployments := deployments (stats m1) + 1\<rparr>\<rparr>)))"

text \<open>The entries \<^verbatim>\<open>recent_operations\<close> and \<^verbatim>\<open>recent_errors\<close> of \<^verbatim>\<open>get_status\<close>.\<close>

definition recent_operations :: "ManusAISystem \<Rightarrow> pydict list" where
  "recent_operations m =
     (if operation_log m \<noteq> [] then slice_from (operation_log m) (- 10) else [])"

definition recent_errors :: "ManusAISystem \<Rightarrow> pydict list" where
  "recent_errors m = (if error_log m \<noteq> [] then slice_from (error_log m) (- 5) else [])"


section \<open>Notions used to state the properties\<close>

text \<open>The three request kinds and the consensus operation and provider method of each.\<close>

datatype request_kind = GENERATE_CODE | ANALYZE_CODE | ANSWER_QUESTION

fun consensus ::
  "request_kind \<Rightarrow> MultiAIOrchestrator \<Rightarrow> string \<Rightarrow> string \<Rightarrow> py_exception + pydict" where
  "consensus GENERATE_CODE = generate_code_consensus"
| "consensus ANALYZE_CODE = analyze_code_consensus"
| "consensus ANSWER_QUESTION = answer_question_consensus"

fun integration_call ::
  "request_kind \<Rightarrow> integration_class \<Rightarrow> string \<Rightarrow> string \<Rightarrow> py_exception + AIResponse" where
  "integration_call GENERATE_CODE = integration_generate_code"
| "integration_call ANALYZE_CODE = integration_analyze_code"
| "integration_call ANSWER_QUESTION = integration_answer_question"

text \<open>The keys of the registry built by \<^verbatim>\<open>__init__\<close>, in its order.\<close>

definition known_providers :: "AIProvider list" where
  "known_providers = map fst registry"

text \<open>
  What the provider \<open>p\<close> of the registry answers to a request, if it answers, and the
  successful responses to a request: those of the enabled providers of the registry that
  answer, in the order of the registry.
\<close>

definition provider_response ::
  "request_kind \<Rightarrow> string \<Rightarrow> string \<Rightarrow> AIProvider \<Rightarrow> AIResponse option" where
  "provider_response kind input now p =
     (case map_of registry p of
        None \<Rightarrow> None
      | Some a \<Rightarrow>
          (case integration_call kind (cls a) input now of Inl e \<Rightarrow> None | Inr r \<Rightarrow> Some r))"

definition successes ::
  "request_kind \<Rightarrow> AIProvider set \<Rightarrow> string \<Rightarrow> string \<Rightarrow> AIResponse list" where
  "successes kind S input now =
     List.map_filter (\<lambda>p. if p \<in> S then provider_response kind input now p else None)
       known_providers"

text \<open>The entry \<open>k\<close> of the dictionary stored under \<^verbatim>\<open>consensus\<close> in a result.\<close>

definition consensus_field :: "pydict \<Rightarrow> string \<Rightarrow> pyval" where
  "consensus_field res k =
     (case dict_get res ''consensus'' of PDict c \<Rightarrow> dict_get c k | _ \<Rightarrow> PNone)"

text \<open>
  The agreement label in the words of the specification: high above 0.85, medium above
  0.75 and up to 0.85, low otherwise.
\<close>

definition spec_agreement :: "rat \<Rightarrow> string" where
  "spec_agreement avg =
     (if avg > 85 / 100 then ''high''
      else if 75 / 100 < avg \<and> avg \<le> 85 / 100 then ''medium''
      else ''low'')"

text \<open>The arithmetic mean of a list of numbers.\<close>

definition mean :: "rat list \<Rightarrow> rat" where
  "mean xs = sum_list xs / of_nat (length xs)"

text \<open>
  The calls a client can make on an orchestrator, and the orchestrator after a call. The
  consensus operations and \<^verbatim>\<open>get_status\<close> assign to no attribute.
\<close>

datatype orchestrator_call =
    EnableAI AIProvider
  | DisableAI AIProvider
  | Consensus request_kind string string
  | GetStatus string

fun orchestrator_step :: "MultiAIOrchestrator \<Rightarrow> orchestrator_call \<Rightarrow> MultiAIOrchestrator" where
  "orchestrator_step orch (EnableAI p) = snd (enable_ai orch p)"
| "orchestrator_step orch (DisableAI p) = snd (disable_ai orch p)"
| "orchestrator_step orch (Consensus kind input now) = orch"
| "orchestrator_step orch (GetStatus now) = orch"

text \<open>
  The calls a client can make on the system object, with the calls on its orchestrator,
  and the system after a call.
\<close>

datatype manus_call =
    Initialize string string
  | GenerateCode string string string string
  | AnalyzeCode string string string
  | AskQuestion string string
  | Deploy string string string string
  | OnOrchestrator orchestrator_call

fun manus_step :: "ManusAISystem \<Rightarrow> manus_call \<Rightarrow> ManusAISystem" where
  "manus_step m (Initialize token now) = snd (initialize m token now)"
| "manus_step m (GenerateCode feature_name description repository now) =
     snd (generate_code m feature_name description repository now)"
| "manus_step m (AnalyzeCode code file_name now) = snd (analyze_code m code file_name now)"
| "manus_step m (AskQuestion question now) = snd (ask_question m question now)"
| "manus_step m (Deploy repository version environment now) =
     snd (deploy m repository version environment now)"
| "manus_step m (OnOrchestrator c) =
     m\<lparr>ai_orchestrator := orchestrator_step (ai_orchestrator m) c\<rparr>"

text \<open>The four operations of the system object behind the authentication gate.\<close>

fun gated :: "manus_call \<Rightarrow> bool" where
  "gated (Initialize token now) = False"
| "gated (OnOrchestrator c) = False"
| "gated c = True"

fun manus_result :: "ManusAISystem \<Rightarrow> manus_call \<Rightarrow> pydict" where
  "manus_result m (GenerateCode feature_name description repository now) =
     fst (generate_code m feature_name description repository now)"
| "manus_result m (AnalyzeCode code file_name now) = fst (analyze_code m code file_name now)"
| "manus_result m (AskQuestion question now) = fst (ask_question m question now)"
| "manus_result m (Deploy repository version environment now) =
     fst (deploy m repository version environment now)"
| "manus_result m c = []"


text \<open>
  The invariant of the orchestrator: the registry is the one built by \<^verbatim>\<open>__init__\<close> and
  only its providers are enabled.
\<close>

definition registry_invariant :: "MultiAIOrchestrator \<Rightarrow> bool" where
  "registry_invariant orch =
     (ai_systems orch = registry \<and> enabled_systems orch \<subseteq> set known_providers)"


text \<open>
  The seven operations of the GitHub layer behind its authentication gate, as calls, and
  the status that each reports when it goes through.
\<close>

datatype github_call =
    CreateBranch string string string string
  | Commit string string "string list" string string
  | CreatePullRequest string string string string string string
  | MergePullRequest string int string string
  | PushToRepository string string string string
  | CreateRelease string string string string
  | DeployToProduction string string string string

fun github_apply :: "GitHubAutomation \<Rightarrow> github_call \<Rightarrow> pydict \<times> GitHubAutomation" where
  "github_apply g (CreateBranch repo branch_name base_branch now) =
     create_branch g repo branch_name base_branch now"
| "github_apply g (Commit repo message files branch now) = commit g repo message files branch now"
| "github_apply g (CreatePullRequest repo title description source_branch target_branch now) =
     create_pull_request g repo title description source_branch target_branch now"
| "github_apply g (MergePullRequest repo pr_number merge_method now) =
     merge_pull_request g repo pr_number merge_method now"
| "github_apply g (PushToRepository repo branch commit_message now) =
     push_to_repository g repo branch commit_message now"
| "github_apply g (CreateRelease repo version changelog now) =
     create_release g repo version changelog now"
| "github_apply g (DeployToProduction repo version environment now) =
     deploy_to_production g repo version environment now"

fun success_status :: "github_call \<Rightarrow> string" where
  "success_status (CreatePullRequest repo title description source_branch target_branch now) = ''open''"
| "success_status c = ''success''"

text \<open>
  The operations of the system object that dispatch a request to the orchestrator, and the
  balance of the statistics.
\<close>

fun dispatches :: "manus_call \<Rightarrow> bool" where
  "dispatches (GenerateCode feature_name description repository now) = True"
| "dispatches (AnalyzeCode code file_name now) = True"
| "dispatches (AskQuestion question now) = True"
| "dispatches c = False"

definition balanced :: "statistics \<Rightarrow> bool" where
  "balanced st = (total_operations st = successful_operations st + failed_operations st)"


section \<open>Properties of the orchestrator\<close>

subsection \<open>The responses of a consensus call\<close>

lemma known_providers_eq: "known_providers = [CLAUDE, DEEPSEEK, PERPLEXITY, GEMINI, GROK]"
  by (simp add: known_providers_def registry_def)

lemma gather_successes:
  "ai_systems orch = registry \<Longrightarrow>
   gather (map (\<lambda>a. integration_call kind (cls a) input now) (enabled_integrations orch))
     = Inr (successes kind (enabled_systems orch) input now)"
  by (cases kind)
     (simp_all add: enabled_integrations_def successes_def known_providers_eq registry_def
        List.map_filter_def provider_response_def new_integration_def)

lemma successes_providers:
  "map provider (successes kind S input now) = filter (\<lambda>p. p \<in> S) known_providers"
  by (cases kind)
     (simp_all add: successes_def known_providers_eq registry_def
        List.map_filter_def provider_response_def new_integration_def mk_response_def)

lemma successes_empty_iff:
  "(successes kind S input now = []) = (S \<inter> set known_providers = {})"
proof -
  have "(successes kind S input now = []) = (map provider (successes kind S input now) = [])"
    by simp
  also have "\<dots> = (filter (\<lambda>p. p \<in> S) known_providers = [])"
    by (simp only: successes_providers)
  also have "\<dots> = (S \<inter> set known_providers = {})"
    by (auto simp: filter_empty_conv)
  finally show ?thesis .
qed

lemma provider_response_confidence:
  "provider_response kind input now p = Some r \<Longrightarrow> 85 / 100 \<le> confidence r"
  by (cases kind; cases p)
     (auto simp: provider_response_def registry_def new_integration_def mk_response_def)

lemma provider_response_confidence_strict:
  "kind \<noteq> GENERATE_CODE \<Longrightarrow> provider_response kind input now p = Some r \<Longrightarrow> 85 / 100 < confidence r"
  by (cases kind; cases p)
     (auto simp: provider_response_def registry_def new_integration_def mk_response_def)

lemma successes_member:
  "r \<in> set (successes kind S input now) \<Longrightarrow>
   \<exists>p. p \<in> S \<and> p \<in> set known_providers \<and> provider_response kind input now p = Some r"
  by (auto simp: successes_def List.map_filter_def split: if_splits)

lemma successes_confidence:
  "r \<in> set (successes kind S input now) \<Longrightarrow> 85 / 100 \<le> confidence r"
  using successes_member provider_response_confidence by blast

lemma successes_confidence_strict:
  "kind \<noteq> GENERATE_CODE \<Longrightarrow> r \<in> set (successes kind S input now) \<Longrightarrow> 85 / 100 < confidence r"
  using successes_member provider_response_confidence_strict by blast

lemma sum_list_lower: "\<forall>x \<in> set xs. c \<le> x \<Longrightarrow> c * of_nat (length xs) \<le> sum_list (xs :: rat list)"
  by (induction xs) (auto simp: algebra_simps intro: add_mono)

lemma sum_list_lower_strict: "xs \<noteq> [] \<Longrightarrow> \<forall>x \<in> set xs. c < x \<Longrightarrow> c * of_nat (length xs) < sum_list (xs :: rat list)"
proof (induction xs)
  case Nil then show ?case by simp
next
  case (Cons a xs)
  have "c * of_nat (length xs) \<le> sum_list xs"
    using Cons.prems(2) by (intro sum_list_lower) (auto intro: less_imp_le)
  moreover have "c < a" using Cons.prems(2) by simp
  ultimately show ?case by (simp add: algebra_simps add_less_le_mono)
qed

lemma mean_lower: "xs \<noteq> [] \<Longrightarrow> \<forall>x \<in> set xs. c \<le> x \<Longrightarrow> c \<le> mean xs"
  using sum_list_lower[of xs c] by (simp add: mean_def pos_le_divide_eq)

lemma mean_lower_strict: "xs \<noteq> [] \<Longrightarrow> \<forall>x \<in> set xs. c < x \<Longrightarrow> c < mean xs"
  using sum_list_lower_strict[of xs c] by (simp add: mean_def pos_less_divide_eq)

lemma avg_confidence_mean:
  "rs \<noteq> [] \<Longrightarrow> avg_confidence rs = Inr (mean (map confidence rs))"
  by (simp add: avg_confidence_def mean_def)

lemma generate_code_consensus_result:
  assumes "ai_systems orch = registry" "successes GENERATE_CODE (enabled_systems orch) prompt now = rs" "rs \<noteq> []"
  shows "generate_code_consensus orch prompt now =
    Inr [(''prompt'', PStr prompt), (''timestamp'', PStr now),
         (''responses'', PList (map response_entry_reasoning rs)),
         (''consensus'', PDict [(''average_confidence'', PFloat (mean (map confidence rs))),
              (''agreement_level'', PStr (if mean (map confidence rs) > 85 / 100 then ''high''
                   else if mean (map confidence rs) > 75 / 100 then ''medium'' else ''low''))]),
         (''best_response'', best_entry (max_from (hd rs) (tl rs)))]"
proof -
  have g: "gather (map (\<lambda>a. integration_generate_code (cls a) prompt now) (enabled_integrations orch)) = Inr rs"
    using gather_successes[OF assms(1), of GENERATE_CODE prompt now] assms(2) by simp
  obtain r rs' where rs: "rs = r # rs'" using assms(3) by (cases rs) auto
  show ?thesis
    unfolding generate_code_consensus_def Let_def g
    using avg_confidence_mean[OF assms(3)]
    by (simp add: rs dict_set_def)
qed

lemma analyze_code_consensus_result:
  assumes "ai_systems orch = registry" "successes ANALYZE_CODE (enabled_systems orch) code now = rs" "rs \<noteq> []"
  shows "analyze_code_consensus orch code now =
    Inr [(''code_length'', PInt (int (length code))), (''timestamp'', PStr now),
         (''responses'', PList (map response_entry rs)),
         (''consensus'', PDict [(''average_confidence'', PFloat (mean (map confidence rs))),
              (''agreement_level'', PStr (if mean (map confidence rs) > 85 / 100 then ''high''
                   else ''medium''))])]"
proof -
  have g: "gather (map (\<lambda>a. integration_analyze_code (cls a) code now) (enabled_integrations orch)) = Inr rs"
    using gather_successes[OF assms(1), of ANALYZE_CODE code now] assms(2) by simp
  show ?thesis
    unfolding analyze_code_consensus_def Let_def g
    using avg_confidence_mean[OF assms(3)]
    by (simp add: dict_set_def)
qed

lemma answer_question_consensus_result:
  assumes "ai_systems orch = registry" "successes ANSWER_QUESTION (enabled_systems orch) question now = rs" "rs \<noteq> []"
  shows "answer_question_consensus orch question now =
    Inr [(''question'', PStr question), (''timestamp'', PStr now),
         (''responses'', PList (map response_entry_reasoning rs)),
         (''consensus'', PDict [(''average_confidence'', PFloat (mean (map confidence rs))),
              (''agreement_level'', PStr (if mean (map confidence rs) > 85 / 100 then ''high''
                   else ''medium''))])]"
proof -
  have g: "gather (map (\<lambda>a. integration_answer_question (cls a) question now) (enabled_integrations orch)) = Inr rs"
    using gather_successes[OF assms(1), of ANSWER_QUESTION question now] assms(2) by simp
  show ?thesis
    unfolding answer_question_consensus_def Let_def g
    using avg_confidence_mean[OF assms(3)]
    by (simp add: dict_set_def)
qed

lemma consensus_fields:
  assumes "ai_systems orch = registry" "enabled_systems orch \<inter> set known_providers \<noteq> {}"
  shows "\<exists>res. consensus kind orch input now = Inr res
     \<and> consensus_field res ''average_confidence''
          = PFloat (mean (map confidence (successes kind (enabled_systems orch) input now)))
     \<and> consensus_field res ''agreement_level''
          = PStr (if mean (map confidence (successes kind (enabled_systems orch) input now)) > 85 / 100 then ''high''
                  else if kind = GENERATE_CODE \<and> \<not> mean (map confidence (successes kind (enabled_systems orch) input now)) > 75 / 100 then ''low''
                  else ''medium'')"
proof -
  have ne: "successes kind (enabled_systems orch) input now \<noteq> []"
    using assms(2) by (simp add: successes_empty_iff)
  show ?thesis
  proof (cases kind)
    case GENERATE_CODE
    show ?thesis
      unfolding GENERATE_CODE consensus.simps
      by (subst generate_code_consensus_result[OF assms(1) refl ne[unfolded GENERATE_CODE]])
         (simp add: consensus_field_def dict_get_def)
  next
    case ANALYZE_CODE
    show ?thesis
      unfolding ANALYZE_CODE consensus.simps
      by (subst analyze_code_consensus_result[OF assms(1) refl ne[unfolded ANALYZE_CODE]])
         (simp add: consensus_field_def dict_get_def)
  next
    case ANSWER_QUESTION
    show ?thesis
      unfolding ANSWER_QUESTION consensus.simps
      by (subst answer_question_consensus_result[OF assms(1) refl ne[unfolded ANSWER_QUESTION]])
         (simp add: consensus_field_def dict_get_def)
  qed
qed

lemma mean_successes_lower:
  assumes "S \<inter> set known_providers \<noteq> {}"
  shows "85 / 100 \<le> mean (map confidence (successes kind S input now))"
    and "kind \<noteq> GENERATE_CODE \<Longrightarrow> 85 / 100 < mean (map confidence (successes kind S input now))"
proof -
  have ne: "map confidence (successes kind S input now) \<noteq> []"
    using assms by (simp add: successes_empty_iff)
  show "85 / 100 \<le> mean (map confidence (successes kind S input now))"
    by (rule mean_lower[OF ne]) (auto dest: successes_confidence)
  show "85 / 100 < mean (map confidence (successes kind S input now))" if "kind \<noteq> GENERATE_CODE"
    by (rule mean_lower_strict[OF ne]) (use that in \<open>auto dest: successes_confidence_strict\<close>)
qed


lemma init_registry: "ai_systems orchestrator_init = registry"
  by (simp add: orchestrator_init_def)

lemma init_enabled: "enabled_systems orchestrator_init = set known_providers"
  by (simp add: orchestrator_init_def known_providers_def)


subsection \<open>The maximum taken by \<^verbatim>\<open>max\<close>\<close>

lemma max_from_split:
  "\<exists>pre post. b # rs = pre @ max_from b rs # post
     \<and> (\<forall>r \<in> set pre. confidence r < confidence (max_from b rs))
     \<and> (\<forall>r \<in> set post. confidence r \<le> confidence (max_from b rs))"
proof (induction rs arbitrary: b)
  case Nil
  have "[b] = [] @ b # []" by simp
  then show ?case by (metis empty_iff list.set(1) max_from.simps(1))
next
  case (Cons r rs)
  show ?case
  proof (cases "confidence r > confidence b")
    case True
    then have m: "max_from b (r # rs) = max_from r rs" by simp
    from Cons.IH[of r] obtain pre post where
      s: "r # rs = pre @ max_from r rs # post"
      and lt: "\<forall>x \<in> set pre. confidence x < confidence (max_from r rs)"
      and le: "\<forall>x \<in> set post. confidence x \<le> confidence (max_from r rs)"
      by blast
    have "r \<in> set (pre @ max_from r rs # post)" using s by (metis list.set_intros(1))
    then have "confidence r \<le> confidence (max_from r rs)"
      using lt le by (auto intro: less_imp_le)
    then have "confidence b < confidence (max_from r rs)" using True by simp
    then have "\<forall>x \<in> set (b # pre). confidence x < confidence (max_from r rs)" using lt by simp
    moreover have "b # r # rs = (b # pre) @ max_from r rs # post" using s by simp
    ultimately show ?thesis unfolding m using le by blast
  next
    case False
    then have m: "max_from b (r # rs) = max_from b rs" by simp
    from Cons.IH[of b] obtain pre post where
      s: "b # rs = pre @ max_from b rs # post"
      and lt: "\<forall>x \<in> set pre. confidence x < confidence (max_from b rs)"
      and le: "\<forall>x \<in> set post. confidence x \<le> confidence (max_from b rs)"
      by blast
    show ?thesis
    proof (cases pre)
      case Nil
      then have "max_from b rs = b" "post = rs" using s by auto
      then have "b # r # rs = [] @ max_from b rs # (r # rs)"
        and "\<forall>x \<in> set (r # rs). confidence x \<le> confidence (max_from b rs)"
        using False le by auto
      then show ?thesis unfolding m by (metis empty_iff list.set(1))
    next
      case (Cons p pre')
      then have pb: "p = b" and s': "rs = pre' @ max_from b rs # post" using s by auto
      have "confidence b < confidence (max_from b rs)" using lt Cons pb by simp
      then have "confidence r < confidence (max_from b rs)" using False by simp
      then have "\<forall>x \<in> set (b # r # pre'). confidence x < confidence (max_from b rs)"
        using lt Cons pb by simp
      moreover have "b # r # rs = (b # r # pre') @ max_from b rs # post" using s' by simp
      ultimately show ?thesis unfolding m using le by blast
    qed
  qed
qed

lemma py_max_first:
  assumes "rs \<noteq> []"
  shows "\<exists>pre best post. py_max rs = Inr best \<and> rs = pre @ best # post
     \<and> (\<forall>r \<in> set pre. confidence r < confidence best)
     \<and> (\<forall>r \<in> set post. confidence r \<le> confidence best)"
proof -
  obtain b rs' where rs: "rs = b # rs'" using assms by (cases rs) auto
  show ?thesis using max_from_split[of b rs'] unfolding rs by auto
qed

lemma split_Max:
  assumes "rs = pre @ best # post"
    and "\<forall>r \<in> set pre. confidence r < confidence best"
    and "\<forall>r \<in> set post. confidence r \<le> confidence best"
  shows "confidence best = Max (set (map confidence rs))"
proof -
  have "\<forall>x \<in> set (map confidence rs). x \<le> confidence best"
    using assms by (auto intro: less_imp_le)
  moreover have "confidence best \<in> set (map confidence rs)" using assms(1) by simp
  ultimately show ?thesis by (metis List.finite_set Max_eqI)
qed

lemma has_best_response_generate:
  assumes "ai_systems orch = registry" "enabled_systems orch \<inter> set known_providers \<noteq> {}"
  shows "\<exists>res pre best post.
       generate_code_consensus orch prompt now = Inr res
     \<and> successes GENERATE_CODE (enabled_systems orch) prompt now = pre @ best # post
     \<and> dict_get res ''best_response'' = best_entry best
     \<and> (\<forall>r \<in> set pre. confidence r < confidence best)
     \<and> (\<forall>r \<in> set post. confidence r \<le> confidence best)"
proof -
  let ?rs = "successes GENERATE_CODE (enabled_systems orch) prompt now"
  have ne: "?rs \<noteq> []" using assms(2) by (simp add: successes_empty_iff)
  obtain b rs' where rs: "?rs = b # rs'" using ne by (cases ?rs) auto
  from max_from_split[of b rs'] obtain pre post where
    s: "?rs = pre @ max_from b rs' # post"
    and lt: "\<forall>r \<in> set pre. confidence r < confidence (max_from b rs')"
    and le: "\<forall>r \<in> set post. confidence r \<le> confidence (max_from b rs')"
    unfolding rs by blast
  have "dict_get (projr (generate_code_consensus orch prompt now)) ''best_response'' = best_entry (max_from b rs')"
    by (subst generate_code_consensus_result[OF assms(1) refl ne]) (simp add: dict_get_def rs)
  moreover have "\<exists>res. generate_code_consensus orch prompt now = Inr res"
    by (subst generate_code_consensus_result[OF assms(1) refl ne]) simp
  ultimately show ?thesis using s lt le by (metis sum.sel(2))
qed

lemma no_best_response:
  assumes "ai_systems orch = registry" "enabled_systems orch \<inter> set known_providers \<noteq> {}"
    and "kind \<noteq> GENERATE_CODE"
  shows "\<exists>res. consensus kind orch input now = Inr res \<and> \<not> dict_has res ''best_response''"
proof -
  have ne: "successes kind (enabled_systems orch) input now \<noteq> []"
    using assms(2) by (simp add: successes_empty_iff)
  show ?thesis
  proof (cases kind)
    case GENERATE_CODE
    then show ?thesis using assms(3) by simp
  next
    case ANALYZE_CODE
    show ?thesis
      unfolding ANALYZE_CODE consensus.simps
      by (subst analyze_code_consensus_result[OF assms(1) refl ne[unfolded ANALYZE_CODE]])
         (simp add: dict_has_def)
  next
    case ANSWER_QUESTION
    show ?thesis
      unfolding ANSWER_QUESTION consensus.simps
      by (subst answer_question_consensus_result[OF assms(1) refl ne[unfolded ANSWER_QUESTION]])
         (simp add: dict_has_def)
  qed
qed

subsection \<open>Agreement level\<close>

text \<open>
  Claim C1. For every call of one of the three consensus operations on an orchestrator
  with the registry of \<^verbatim>\<open>__init__\<close> and at least one enabled provider, the call returns
  a result whose agreement level is \<open>high\<close> iff the computed average confidence is above
  0.85, \<open>medium\<close> iff it is above 0.75 and at most 0.85, and \<open>low\<close> iff it is at most 0.75.
  (\<^verbatim>\<open>analyze_code_consensus\<close> and \<^verbatim>\<open>answer_question_consensus\<close> have no branch for \<open>low\<close>;
  every provider of the registry answers with a confidence of at least 0.85, so the
  average never falls to 0.75 and the two-way test gives the same label.)
\<close>

theorem agreement_level_classified:
  assumes "ai_systems orch = registry"
    and "enabled_systems orch \<inter> set known_providers \<noteq> {}"
  shows "\<exists>res avg level.
           consensus kind orch input now = Inr res
         \<and> consensus_field res ''average_confidence'' = PFloat avg
         \<and> consensus_field res ''agreement_level'' = PStr level
         \<and> level = spec_agreement avg
         \<and> (level = ''high'') = (avg > 85 / 100)
         \<and> (level = ''medium'') = (75 / 100 < avg \<and> avg \<le> 85 / 100)
         \<and> (level = ''low'') = (avg \<le> 75 / 100)"
proof -
  let ?avg = "mean (map confidence (successes kind (enabled_systems orch) input now))"
  obtain res where res: "consensus kind orch input now = Inr res"
      "consensus_field res ''average_confidence'' = PFloat ?avg"
      "consensus_field res ''agreement_level'' =
         PStr (if ?avg > 85 / 100 then ''high''
               else if kind = GENERATE_CODE \<and> \<not> ?avg > 75 / 100 then ''low'' else ''medium'')"
    using consensus_fields[OF assms, of kind input now] by blast
  have lo: "85 / 100 \<le> ?avg"
    using mean_successes_lower(1)[OF assms(2)] .
  have hi: "75 / 100 < ?avg" using lo by simp
  have lvl: "(if ?avg > 85 / 100 then ''high''
               else if kind = GENERATE_CODE \<and> \<not> ?avg > 75 / 100 then ''low'' else ''medium'')
             = spec_agreement ?avg"
    using hi by (simp add: spec_agreement_def)
  have iffs: "(spec_agreement ?avg = ''high'') = (?avg > 85 / 100)"
       "(spec_agreement ?avg = ''medium'') = (75 / 100 < ?avg \<and> ?avg \<le> 85 / 100)"
       "(spec_agreement ?avg = ''low'') = (?avg \<le> 75 / 100)"
    by (auto simp: spec_agreement_def)
  show ?thesis
    using res iffs unfolding lvl by blast
qed

theorem agreement_level_classified_witness:
  "ai_systems orchestrator_init = registry
   \<and> enabled_systems orchestrator_init \<inter> set known_providers \<noteq> {}
   \<and> (\<exists>res avg level.
           consensus ANALYZE_CODE orchestrator_init ''x = 1'' ''2025-01-01T00:00:00'' = Inr res
         \<and> consensus_field res ''average_confidence'' = PFloat avg
         \<and> consensus_field res ''agreement_level'' = PStr level
         \<and> level = spec_agreement avg
         \<and> (level = ''high'') = (avg > 85 / 100)
         \<and> (level = ''medium'') = (75 / 100 < avg \<and> avg \<le> 85 / 100)
         \<and> (level = ''low'') = (avg \<le> 75 / 100))"
proof -
  have h1: "ai_systems orchestrator_init = registry" by (rule init_registry)
  have h2: "enabled_systems orchestrator_init \<inter> set known_providers \<noteq> {}"
    by (simp add: init_enabled known_providers_eq)
  show ?thesis
    by (rule conjI[OF h1 conjI[OF h2 agreement_level_classified[OF h1 h2]]])
qed

subsection \<open>Best response\<close>

text \<open>
  Claim C3, as amended. For every call of \<^verbatim>\<open>generate_code_consensus\<close> on an orchestrator
  with the registry of \<^verbatim>\<open>__init__\<close> and at least one enabled provider, the responses are
  those of the enabled providers in the order CLAUDE, DEEPSEEK, PERPLEXITY, GEMINI, GROK,
  the best response of the result has the maximum confidence among them, and every
  response before it in that order has a strictly smaller confidence (of several
  responses of maximal confidence the earliest is the best). The results of
  \<^verbatim>\<open>analyze_code_consensus\<close> and \<^verbatim>\<open>answer_question_consensus\<close> have no best response.
\<close>

theorem best_response_generate:
  assumes "ai_systems orch = registry"
    and "enabled_systems orch \<inter> set known_providers \<noteq> {}"
  shows "(\<exists>res pre best post.
            generate_code_consensus orch prompt now = Inr res
          \<and> successes GENERATE_CODE (enabled_systems orch) prompt now = pre @ best # post
          \<and> map provider (pre @ best # post)
                = filter (\<lambda>p. p \<in> enabled_systems orch) [CLAUDE, DEEPSEEK, PERPLEXITY, GEMINI, GROK]
          \<and> dict_get res ''best_response'' = best_entry best
          \<and> confidence best = Max (set (map confidence (pre @ best # post)))
          \<and> (\<forall>r \<in> set pre. confidence r < confidence best))
       \<and> (\<exists>res. analyze_code_consensus orch input now = Inr res
                 \<and> \<not> dict_has res ''best_response'')
       \<and> (\<exists>res. answer_question_consensus orch input now = Inr res
                 \<and> \<not> dict_has res ''best_response'')"
proof -
  obtain res pre best post where
    r: "generate_code_consensus orch prompt now = Inr res"
    and s: "successes GENERATE_CODE (enabled_systems orch) prompt now = pre @ best # post"
    and b: "dict_get res ''best_response'' = best_entry best"
    and lt: "\<forall>r \<in> set pre. confidence r < confidence best"
    and le: "\<forall>r \<in> set post. confidence r \<le> confidence best"
    using has_best_response_generate[OF assms, of prompt now] by blast
  have p: "map provider (pre @ best # post)
            = filter (\<lambda>p. p \<in> enabled_systems orch) [CLAUDE, DEEPSEEK, PERPLEXITY, GEMINI, GROK]"
    using successes_providers[of GENERATE_CODE "enabled_systems orch" prompt now]
    unfolding s known_providers_eq .
  have mx: "confidence best = Max (set (map confidence (pre @ best # post)))"
    using split_Max[OF refl lt le] .
  have g: "\<exists>res pre best post.
            generate_code_consensus orch prompt now = Inr res
          \<and> successes GENERATE_CODE (enabled_systems orch) prompt now = pre @ best # post
          \<and> map provider (pre @ best # post)
                = filter (\<lambda>p. p \<in> enabled_systems orch) [CLAUDE, DEEPSEEK, PERPLEXITY, GEMINI, GROK]
          \<and> dict_get res ''best_response'' = best_entry best
          \<and> confidence best = Max (set (map confidence (pre @ best # post)))
          \<and> (\<forall>r \<in> set pre. confidence r < confidence best)"
    using r s p b mx lt by blast
  have a: "\<exists>res. analyze_code_consensus orch input now = Inr res \<and> \<not> dict_has res ''best_response''"
    using no_best_response[OF assms, of ANALYZE_CODE input now] by simp
  have q: "\<exists>res. answer_question_consensus orch input now = Inr res \<and> \<not> dict_has res ''best_response''"
    using no_best_response[OF assms, of ANSWER_QUESTION input now] by simp
  show ?thesis using g a q by blast
qed


theorem best_response_generate_witness:
  "ai_systems orchestrator_init = registry
   \<and> enabled_systems orchestrator_init \<inter> set known_providers \<noteq> {}
   \<and> ((\<exists>res pre best post.
            generate_code_consensus orchestrator_init ''add'' ''2025-01-01T00:00:00'' = Inr res
          \<and> successes GENERATE_CODE (enabled_systems orchestrator_init) ''add''
                ''2025-01-01T00:00:00'' = pre @ best # post
          \<and> map provider (pre @ best # post)
                = filter (\<lambda>p. p \<in> enabled_systems orchestrator_init)
                    [CLAUDE, DEEPSEEK, PERPLEXITY, GEMINI, GROK]
          \<and> dict_get res ''best_response'' = best_entry best
          \<and> confidence best = Max (set (map confidence (pre @ best # post)))
          \<and> (\<forall>r \<in> set pre. confidence r < confidence best))
       \<and> (\<exists>res. analyze_code_consensus orchestrator_init ''x = 1'' ''2025-01-01T00:00:00'' = Inr res
                 \<and> \<not> dict_has res ''best_response'')
       \<and> (\<exists>res. answer_question_consensus orchestrator_init ''x = 1'' ''2025-01-01T00:00:00''
                   = Inr res
                 \<and> \<not> dict_has res ''best_response''))"
proof -
  have h1: "ai_systems orchestrator_init = registry" by (rule init_registry)
  have h2: "enabled_systems orchestrator_init \<inter> set known_providers \<noteq> {}"
    by (simp add: init_enabled known_providers_eq)
  show ?thesis
    by (rule conjI[OF h1 conjI[OF h2 best_response_generate[OF h1 h2]]])
qed

text \<open>
  The claim as stated, for all request kinds, fails: the result of an analysis has no
  best response.
\<close>

lemma analyze_init_result:
  "analyze_code_consensus (orchestrator_init\<lparr>enabled_systems := {CLAUDE}\<rparr>) ''x = 1'' ''t'' =
    Inr [(''code_length'', PInt 5), (''timestamp'', PStr ''t''),
         (''responses'', PList [response_entry (mk_response CLAUDE
       (''Code quality: 8.5/10'' @ nl @ ''- Good structure'' @ nl @ ''- Could improve error handling'')
       ''t'' (88 / 100) ''Claude provides detailed code analysis'')]),
         (''consensus'', PDict [(''average_confidence'', PFloat (88 / 100)),
              (''agreement_level'', PStr ''high'')])]"
  by (simp add: analyze_code_consensus_def enabled_integrations_def orchestrator_init_def
      registry_def new_integration_def dict_set_def avg_confidence_def mk_response_def)


theorem best_response_counterexample:
  "\<not> isl (analyze_code_consensus (orchestrator_init\<lparr>enabled_systems := {CLAUDE}\<rparr>) ''x = 1'' ''t'')
   \<and> \<not> dict_has (projr (analyze_code_consensus (orchestrator_init\<lparr>enabled_systems := {CLAUDE}\<rparr>) ''x = 1'' ''t''))
         ''best_response''"
  by (simp add: analyze_init_result dict_has_def)

subsection \<open>Average confidence\<close>










subsection \<open>Enabling and disabling providers\<close>

lemma map_of_registry_None: "(map_of registry p = None) = (p \<notin> set known_providers)"
  by (simp add: known_providers_def map_of_eq_None_iff)

lemma not_known_MANUS: "(p \<notin> set known_providers) = (p = MANUS)"
  by (cases p) (simp_all add: known_providers_eq)


text \<open>
  Claim C5. \<^verbatim>\<open>enable_ai\<close> with a provider that is not a key of the registry (the only one
  is MANUS) fails, returning \<^verbatim>\<open>False\<close>, and leaves the orchestrator, so the enabled set,
  unchanged.
\<close>

theorem enable_unknown_provider:
  assumes "ai_systems orch = registry"
    and "p \<notin> set known_providers"
  shows "p = MANUS \<and> fst (enable_ai orch p) = False \<and> snd (enable_ai orch p) = orch"
  using assms by (simp add: enable_ai_def map_of_registry_None not_known_MANUS)


theorem enable_unknown_provider_witness:
  "ai_systems orchestrator_init = registry
   \<and> MANUS \<notin> set known_providers
   \<and> (MANUS = MANUS \<and> fst (enable_ai orchestrator_init MANUS) = False
        \<and> snd (enable_ai orchestrator_init MANUS) = orchestrator_init)"
proof -
  have h1: "ai_systems orchestrator_init = registry" by (rule init_registry)
  have h2: "MANUS \<notin> set known_providers" by (simp add: known_providers_eq)
  show ?thesis
    by (rule conjI[OF h1 conjI[OF h2 enable_unknown_provider[OF h1 h2]]])
qed


text \<open>
  Claim C6, as amended. For every provider of the registry, enabling it when it is enabled
  returns \<^verbatim>\<open>True\<close> and leaves the orchestrator unchanged; disabling it when it is not
  enabled leaves the orchestrator unchanged and returns \<^verbatim>\<open>False\<close>, the value that reports
  a failure. So a second \<^verbatim>\<open>enable_ai\<close> changes nothing and succeeds, a second \<^verbatim>\<open>disable_ai\<close>
  changes nothing and returns \<^verbatim>\<open>False\<close>.
\<close>

theorem enable_disable_repeated:
  assumes "ai_systems orch = registry"
    and "p \<in> set known_providers"
  shows "(p \<in> enabled_systems orch \<longrightarrow> enable_ai orch p = (True, orch))
       \<and> (p \<notin> enabled_systems orch \<longrightarrow> disable_ai orch p = (False, orch))
       \<and> enable_ai (snd (enable_ai orch p)) p = (True, snd (enable_ai orch p))
       \<and> disable_ai (snd (disable_ai orch p)) p = (False, snd (disable_ai orch p))"
proof -
  have k: "map_of (ai_systems orch) p \<noteq> None"
    using assms by (simp add: map_of_registry_None)
  show ?thesis
    using k by (auto simp: enable_ai_def disable_ai_def insert_absorb)
qed


theorem enable_disable_repeated_witness:
  "ai_systems orchestrator_init = registry
   \<and> CLAUDE \<in> set known_providers
   \<and> enable_ai orchestrator_init CLAUDE = (True, orchestrator_init)
   \<and> disable_ai (snd (disable_ai orchestrator_init CLAUDE)) CLAUDE
        = (False, snd (disable_ai orchestrator_init CLAUDE))"
proof -
  have h1: "ai_systems orchestrator_init = registry" by (rule init_registry)
  have h2: "CLAUDE \<in> set known_providers" by (simp add: known_providers_eq)
  have h3: "CLAUDE \<in> enabled_systems orchestrator_init" by (simp add: init_enabled known_providers_eq)
  show ?thesis
    using enable_disable_repeated[OF h1 h2] h1 h2 h3 by blast
qed


text \<open>
  The claim as stated fails for \<^verbatim>\<open>disable_ai\<close>: disabling CLAUDE a second time does not
  return success.
\<close>

theorem disable_twice_counterexample:
  "CLAUDE \<in> set known_providers
   \<and> CLAUDE \<notin> enabled_systems (snd (disable_ai orchestrator_init CLAUDE))
   \<and> fst (disable_ai (snd (disable_ai orchestrator_init CLAUDE)) CLAUDE) = False"
  by (simp add: disable_ai_def init_enabled known_providers_eq)


subsection \<open>The registry never changes\<close>

lemma step_invariant:
  "registry_invariant orch \<Longrightarrow> registry_invariant (orchestrator_step orch c)"
  by (cases c) (auto simp: registry_invariant_def enable_ai_def disable_ai_def map_of_registry_None)

lemma run_invariant:
  "registry_invariant orch \<Longrightarrow> registry_invariant (foldl orchestrator_step orch calls)"
  by (induction calls arbitrary: orch) (simp_all add: step_invariant)

lemma init_invariant: "registry_invariant orchestrator_init"
  by (simp add: registry_invariant_def init_registry init_enabled)

lemma card_known: "S \<subseteq> set known_providers \<Longrightarrow> card S \<le> 5"
proof -
  assume "S \<subseteq> set known_providers"
  then have "card S \<le> card (set known_providers)" by (intro card_mono) simp_all
  also have "\<dots> \<le> length known_providers" by (rule card_length)
  also have "\<dots> = 5" by (simp add: known_providers_eq)
  finally show ?thesis .
qed


text \<open>
  Claim C9. After any sequence of calls of \<^verbatim>\<open>enable_ai\<close>, \<^verbatim>\<open>disable_ai\<close>, the three
  consensus operations and \<^verbatim>\<open>get_status\<close> on a new orchestrator, the registry is the one
  built by \<^verbatim>\<open>__init__\<close>, with the keys CLAUDE, DEEPSEEK, PERPLEXITY, GEMINI, GROK, the
  enabled providers are among these five, \<^verbatim>\<open>total_systems\<close> is 5 and \<^verbatim>\<open>active_systems\<close> is
  at most 5.
\<close>

theorem enabled_within_registry:
  "ai_systems (foldl orchestrator_step orchestrator_init calls) = registry
   \<and> map fst (ai_systems (foldl orchestrator_step orchestrator_init calls))
        = [CLAUDE, DEEPSEEK, PERPLEXITY, GEMINI, GROK]
   \<and> enabled_systems (foldl orchestrator_step orchestrator_init calls)
        \<subseteq> {CLAUDE, DEEPSEEK, PERPLEXITY, GEMINI, GROK}
   \<and> total_systems (orchestrator_get_status (foldl orchestrator_step orchestrator_init calls) now) = 5
   \<and> active_systems (orchestrator_get_status (foldl orchestrator_step orchestrator_init calls) now) \<le> 5"
proof -
  let ?o = "foldl orchestrator_step orchestrator_init calls"
  have inv: "registry_invariant ?o" by (rule run_invariant[OF init_invariant])
  then have r: "ai_systems ?o = registry" and e: "enabled_systems ?o \<subseteq> set known_providers"
    by (simp_all add: registry_invariant_def)
  have k: "map fst (ai_systems ?o) = [CLAUDE, DEEPSEEK, PERPLEXITY, GEMINI, GROK]"
    using r known_providers_eq by (simp add: known_providers_def)
  have e': "enabled_systems ?o \<subseteq> {CLAUDE, DEEPSEEK, PERPLEXITY, GEMINI, GROK}"
    using e by (simp add: known_providers_eq)
  have t: "total_systems (orchestrator_get_status ?o now) = 5"
    using r by (simp add: orchestrator_get_status_def registry_def)
  have a: "active_systems (orchestrator_get_status ?o now) \<le> 5"
    using card_known[OF e] by (simp add: orchestrator_get_status_def)
  show ?thesis using r k e' t a by blast
qed

theorem enabled_within_registry_witness:
  "enabled_systems (foldl orchestrator_step orchestrator_init
      [DisableAI CLAUDE, EnableAI MANUS, Consensus ANALYZE_CODE ''x = 1'' ''t'', GetStatus ''t''])
     \<subseteq> {CLAUDE, DEEPSEEK, PERPLEXITY, GEMINI, GROK}
   \<and> total_systems (orchestrator_get_status (foldl orchestrator_step orchestrator_init
      [DisableAI CLAUDE, EnableAI MANUS, Consensus ANALYZE_CODE ''x = 1'' ''t'', GetStatus ''t''])
      ''t'') = 5"
  using enabled_within_registry[of
      "[DisableAI CLAUDE, EnableAI MANUS, Consensus ANALYZE_CODE ''x = 1'' ''t'', GetStatus ''t'']"
      "''t''"]
  by blast


section \<open>Properties of the GitHub layer and of the system object\<close>

subsection \<open>The authentication gates and the statistics\<close>

lemma github_not_authenticated:
  "\<not> authenticated g \<Longrightarrow> github_apply g c = (not_authenticated, g)"
  by (cases c)
     (simp_all add: create_branch_def commit_def create_pull_request_def merge_pull_request_def
        push_to_repository_def create_release_def deploy_to_production_def)

lemma github_authenticated:
  "authenticated g \<Longrightarrow>
     dict_get (fst (github_apply g c)) ''status'' = PStr (success_status c)
   \<and> \<not> dict_has (fst (github_apply g c)) ''error''"
  by (cases c)
     (simp_all add: create_branch_def commit_def create_pull_request_def merge_pull_request_def
        push_to_repository_def create_release_def deploy_to_production_def Let_def
        dict_get_def dict_has_def)

lemma gate_closed:
  "gated c \<Longrightarrow> \<not> is_authenticated m \<Longrightarrow>
     manus_result m c = [(''error'', PStr ''Not authenticated'')] \<and> manus_step m c = m"
  by (cases c) (simp_all add: generate_code_def analyze_code_def ask_question_def deploy_def)

lemma stats_step:
  "gated c \<Longrightarrow> is_authenticated m \<Longrightarrow>
     total_operations (stats (manus_step m c)) = total_operations (stats m) + 1
   \<and> (successful_operations (stats (manus_step m c)) = successful_operations (stats m) + 1
        \<and> failed_operations (stats (manus_step m c)) = failed_operations (stats m)
      \<or> successful_operations (stats (manus_step m c)) = successful_operations (stats m)
        \<and> failed_operations (stats (manus_step m c)) = failed_operations (stats m) + 1)"
  by (cases c)
     (simp_all add: generate_code_def analyze_code_def ask_question_def deploy_def Let_def
        count_total_def count_failed_def count_successful_def split: sum.splits)

lemma stats_ungated:
  "\<not> gated c \<Longrightarrow> stats (manus_step m c) = stats m"
  by (cases c) (simp_all add: initialize_def Let_def)

lemma stats_preserved:
  "balanced (stats m) \<Longrightarrow> balanced (stats (manus_step m c))"
proof (cases "gated c")
  case False
  assume "balanced (stats m)"
  then show ?thesis using stats_ungated[OF False, of m] by simp
next
  case True
  assume b: "balanced (stats m)"
  show ?thesis
  proof (cases "is_authenticated m")
    case False
    then show ?thesis using gate_closed[OF True False] b by simp
  next
    case auth: True
    show ?thesis using stats_step[OF True auth] b by (auto simp: balanced_def)
  qed
qed

lemma stats_run: "balanced (stats m) \<Longrightarrow> balanced (stats (foldl manus_step m calls))"
  by (induction calls arbitrary: m) (simp_all add: stats_preserved)

lemma stats_init: "balanced (stats manus_init)"
  by (simp add: balanced_def manus_init_def)

text \<open>
  Claim C10. A call of \<^verbatim>\<open>generate_code\<close>, \<^verbatim>\<open>analyze_code\<close>, \<^verbatim>\<open>ask_question\<close> or \<^verbatim>\<open>deploy\<close>
  that passes the authentication gate adds one to \<^verbatim>\<open>total_operations\<close> and one to exactly
  one of \<^verbatim>\<open>successful_operations\<close> and \<^verbatim>\<open>failed_operations\<close>; a call rejected by the gate
  changes no counter; so every call keeps the balance \<^verbatim>\<open>total_operations ==
  successful_operations + failed_operations\<close>, which holds after any sequence of calls on a
  new system object (calls of \<^verbatim>\<open>initialize\<close> and of its orchestrator included).
\<close>

theorem statistics_balanced:
  "(gated c \<and> is_authenticated m \<longrightarrow>
       total_operations (stats (manus_step m c)) = total_operations (stats m) + 1
     \<and> (successful_operations (stats (manus_step m c)) = successful_operations (stats m) + 1
          \<and> failed_operations (stats (manus_step m c)) = failed_operations (stats m)
        \<or> successful_operations (stats (manus_step m c)) = successful_operations (stats m)
          \<and> failed_operations (stats (manus_step m c)) = failed_operations (stats m) + 1))
   \<and> (gated c \<and> \<not> is_authenticated m \<longrightarrow> stats (manus_step m c) = stats m)
   \<and> (balanced (stats m) \<longrightarrow> balanced (stats (manus_step m c)))
   \<and> balanced (stats (foldl manus_step manus_init calls))"
  using stats_step[of c m] gate_closed[of c m] stats_preserved[of m c]
    stats_run[OF stats_init, of calls]
  by simp

lemma initialized_authenticated: "is_authenticated (snd (initialize m token now))"
  by (simp add: initialize_def Let_def)

lemma initialized_stats: "stats (snd (initialize m token now)) = stats m"
  by (simp add: initialize_def Let_def)

theorem statistics_balanced_witness:
  "gated (AskQuestion ''why'' ''t'')
   \<and> is_authenticated (snd (initialize manus_init ''token'' ''t''))
   \<and> balanced (stats (snd (initialize manus_init ''token'' ''t'')))
   \<and> total_operations (stats (manus_step (snd (initialize manus_init ''token'' ''t''))
         (AskQuestion ''why'' ''t'')))
       = total_operations (stats (snd (initialize manus_init ''token'' ''t''))) + 1
   \<and> balanced (stats (manus_step (snd (initialize manus_init ''token'' ''t''))
         (AskQuestion ''why'' ''t'')))"
proof -
  let ?m = "snd (initialize manus_init ''token'' ''t'')"
  have h1: "gated (AskQuestion ''why'' ''t'')" by simp
  have h2: "is_authenticated ?m" by (rule initialized_authenticated)
  have h3: "balanced (stats ?m)" by (simp add: initialized_stats stats_init)
  show ?thesis
    using statistics_balanced[of "AskQuestion ''why'' ''t''" ?m "[]"] h1 h2 h3 by blast
qed

subsection \<open>No enabled provider\<close>

lemma no_integrations:
  "enabled_systems orch \<inter> set (map fst (ai_systems orch)) = {} \<Longrightarrow> enabled_integrations orch = []"
proof -
  assume a: "enabled_systems orch \<inter> set (map fst (ai_systems orch)) = {}"
  have "\<forall>x \<in> set (ai_systems orch). \<not> (case x of (p, i) \<Rightarrow> p \<in> enabled_systems orch)"
  proof
    fix x assume "x \<in> set (ai_systems orch)"
    then have "fst x \<in> set (map fst (ai_systems orch))" by simp
    then have "fst x \<notin> enabled_systems orch" using a by blast
    then show "\<not> (case x of (p, i) \<Rightarrow> p \<in> enabled_systems orch)" by (cases x) simp
  qed
  then show ?thesis by (simp add: enabled_integrations_def filter_empty_conv)
qed

lemma no_result:
  "enabled_integrations orch = [] \<Longrightarrow> isl (consensus kind orch input now)"
  by (cases kind)
     (simp_all add: generate_code_consensus_def analyze_code_consensus_def
        answer_question_consensus_def Let_def avg_confidence_def)

lemma orchestrator_count_total: "ai_orchestrator (count_total m) = ai_orchestrator m"
  by (simp add: count_total_def)

lemma dispatch_raises:
  assumes "dispatches c" "is_authenticated m" "enabled_integrations (ai_orchestrator m) = []"
  shows "(\<exists>msg. manus_result m c = [(''error'', PStr msg)])
       \<and> operation_log (manus_step m c) = operation_log m
       \<and> length (error_log (manus_step m c)) = length (error_log m) + 1
       \<and> failed_operations (stats (manus_step m c)) = failed_operations (stats m) + 1
       \<and> successful_operations (stats (manus_step m c)) = successful_operations (stats m)"
proof (cases c)
  case (GenerateCode f d r n)
  have "isl (generate_code_consensus (ai_orchestrator m) (''Generate Python code for: '' @ d) n)"
    using no_result[OF assms(3), of GENERATE_CODE] by simp
  then obtain e where "generate_code_consensus (ai_orchestrator m) (''Generate Python code for: '' @ d) n = Inl e"
    by (auto simp: isl_def)
  then show ?thesis using assms(2)
    by (simp add: GenerateCode generate_code_def Let_def orchestrator_count_total
        count_total_def count_failed_def)
next
  case (AnalyzeCode code f n)
  have "isl (analyze_code_consensus (ai_orchestrator m) code n)"
    using no_result[OF assms(3), of ANALYZE_CODE] by simp
  then obtain e where "analyze_code_consensus (ai_orchestrator m) code n = Inl e"
    by (auto simp: isl_def)
  then show ?thesis using assms(2)
    by (simp add: AnalyzeCode analyze_code_def Let_def orchestrator_count_total
        count_total_def count_failed_def)
next
  case (AskQuestion q n)
  have "isl (answer_question_consensus (ai_orchestrator m) q n)"
    using no_result[OF assms(3), of ANSWER_QUESTION] by simp
  then obtain e where "answer_question_consensus (ai_orchestrator m) q n = Inl e"
    by (auto simp: isl_def)
  then show ?thesis using assms(2)
    by (simp add: AskQuestion ask_question_def Let_def orchestrator_count_total
        count_total_def count_failed_def)
qed (use assms(1) in simp_all)

lemma initialized_orchestrator:
  "ai_orchestrator (snd (initialize manus_init token now)) = orchestrator_init"
  by (simp add: initialize_def Let_def manus_init_def all_providers_def enable_ai_def
      orchestrator_init_def registry_def insert_absorb)

lemma all_disabled_orchestrator:
  "foldl orchestrator_step orchestrator_init
      [DisableAI CLAUDE, DisableAI DEEPSEEK, DisableAI PERPLEXITY, DisableAI GEMINI, DisableAI GROK]
     = orchestrator_init\<lparr>enabled_systems := {}\<rparr>"
  by (simp add: disable_ai_def orchestrator_init_def registry_def)

lemma all_disabled_system:
  "ai_orchestrator (foldl manus_step manus_init
         [Initialize ''token'' ''t'', OnOrchestrator (DisableAI CLAUDE),
          OnOrchestrator (DisableAI DEEPSEEK), OnOrchestrator (DisableAI PERPLEXITY),
          OnOrchestrator (DisableAI GEMINI), OnOrchestrator (DisableAI GROK)])
     = orchestrator_init\<lparr>enabled_systems := {}\<rparr>"
  by (simp add: initialized_orchestrator) (simp add: disable_ai_def orchestrator_init_def registry_def)

lemma all_disabled_authenticated:
  "is_authenticated (foldl manus_step manus_init
         [Initialize ''token'' ''t'', OnOrchestrator (DisableAI CLAUDE),
          OnOrchestrator (DisableAI DEEPSEEK), OnOrchestrator (DisableAI PERPLEXITY),
          OnOrchestrator (DisableAI GEMINI), OnOrchestrator (DisableAI GROK)])"
  by (simp add: initialized_authenticated)

text \<open>
  Claim C2, as amended. When no provider of the registry is enabled, a consensus operation
  calls no provider and returns no result. An operation of the system object that
  dispatches to it (\<^verbatim>\<open>generate_code\<close>, \<^verbatim>\<open>analyze_code\<close>, \<^verbatim>\<open>ask_question\<close>), past the
  authentication gate, then returns an error dictionary \<^verbatim>\<open>{"error": message}\<close>, appends no
  operation record, appends one entry to the error log and counts the call as failed.
\<close>

theorem no_enabled_provider:
  assumes "enabled_systems (ai_orchestrator m) \<inter> set (map fst (ai_systems (ai_orchestrator m))) = {}"
  shows "enabled_integrations (ai_orchestrator m) = []
       \<and> isl (consensus kind (ai_orchestrator m) input now)
       \<and> (is_authenticated m \<and> dispatches c \<longrightarrow>
            (\<exists>msg. manus_result m c = [(''error'', PStr msg)])
          \<and> operation_log (manus_step m c) = operation_log m
          \<and> length (error_log (manus_step m c)) = length (error_log m) + 1
          \<and> failed_operations (stats (manus_step m c)) = failed_operations (stats m) + 1
          \<and> successful_operations (stats (manus_step m c)) = successful_operations (stats m))"
  using no_integrations[OF assms] no_result[OF no_integrations[OF assms], of kind input now]
    dispatch_raises[of c m] by blast

theorem no_enabled_provider_witness:
  "enabled_systems (ai_orchestrator (foldl manus_step manus_init
         [Initialize ''token'' ''t'', OnOrchestrator (DisableAI CLAUDE),
          OnOrchestrator (DisableAI DEEPSEEK), OnOrchestrator (DisableAI PERPLEXITY),
          OnOrchestrator (DisableAI GEMINI), OnOrchestrator (DisableAI GROK)])) = {}
   \<and> is_authenticated (foldl manus_step manus_init
         [Initialize ''token'' ''t'', OnOrchestrator (DisableAI CLAUDE),
          OnOrchestrator (DisableAI DEEPSEEK), OnOrchestrator (DisableAI PERPLEXITY),
          OnOrchestrator (DisableAI GEMINI), OnOrchestrator (DisableAI GROK)])
   \<and> dispatches (GenerateCode ''adder'' ''add two numbers'' ''manus-ai-dev-system'' ''t'')
   \<and> operation_log (manus_step (foldl manus_step manus_init
         [Initialize ''token'' ''t'', OnOrchestrator (DisableAI CLAUDE),
          OnOrchestrator (DisableAI DEEPSEEK), OnOrchestrator (DisableAI PERPLEXITY),
          OnOrchestrator (DisableAI GEMINI), OnOrchestrator (DisableAI GROK)])
         (GenerateCode ''adder'' ''add two numbers'' ''manus-ai-dev-system'' ''t''))
      = operation_log (foldl manus_step manus_init
         [Initialize ''token'' ''t'', OnOrchestrator (DisableAI CLAUDE),
          OnOrchestrator (DisableAI DEEPSEEK), OnOrchestrator (DisableAI PERPLEXITY),
          OnOrchestrator (DisableAI GEMINI), OnOrchestrator (DisableAI GROK)])"
proof -
  let ?m = "foldl manus_step manus_init
         [Initialize ''token'' ''t'', OnOrchestrator (DisableAI CLAUDE),
          OnOrchestrator (DisableAI DEEPSEEK), OnOrchestrator (DisableAI PERPLEXITY),
          OnOrchestrator (DisableAI GEMINI), OnOrchestrator (DisableAI GROK)]"
  let ?c = "GenerateCode ''adder'' ''add two numbers'' ''manus-ai-dev-system'' ''t''"
  have e: "enabled_systems (ai_orchestrator ?m) = {}"
    unfolding all_disabled_system by simp
  have h: "enabled_systems (ai_orchestrator ?m) \<inter> set (map fst (ai_systems (ai_orchestrator ?m))) = {}"
    unfolding e by simp
  have a: "is_authenticated ?m" by (rule all_disabled_authenticated)
  have d: "dispatches ?c" by simp
  have "operation_log (manus_step ?m ?c) = operation_log ?m"
    using no_enabled_provider[OF h, of GENERATE_CODE "''add''" "''t''" ?c] a d by blast
  then show ?thesis using e a d by blast
qed

text \<open>
  The claim as stated fails: with all five providers disabled the three consensus
  operations return no error value, they raise \<^verbatim>\<open>ValueError\<close> (from \<^verbatim>\<open>max\<close> of an empty
  sequence) and \<^verbatim>\<open>ZeroDivisionError\<close> (from the division by the number of responses).
\<close>

theorem no_enabled_provider_counterexample:
  "generate_code_consensus
     (foldl orchestrator_step orchestrator_init
        [DisableAI CLAUDE, DisableAI DEEPSEEK, DisableAI PERPLEXITY, DisableAI GEMINI, DisableAI GROK])
     ''add'' ''t'' = Inl ValueError
   \<and> analyze_code_consensus
     (foldl orchestrator_step orchestrator_init
        [DisableAI CLAUDE, DisableAI DEEPSEEK, DisableAI PERPLEXITY, DisableAI GEMINI, DisableAI GROK])
     ''x = 1'' ''t'' = Inl ZeroDivisionError
   \<and> answer_question_consensus
     (foldl orchestrator_step orchestrator_init
        [DisableAI CLAUDE, DisableAI DEEPSEEK, DisableAI PERPLEXITY, DisableAI GEMINI, DisableAI GROK])
     ''why'' ''t'' = Inl ZeroDivisionError"
  unfolding all_disabled_orchestrator
  by (simp add: generate_code_consensus_def analyze_code_consensus_def answer_question_consensus_def
      enabled_integrations_def avg_confidence_def orchestrator_init_def dict_set_def)

subsection \<open>Behind the gate\<close>

lemma consensus_returns:
  assumes "ai_systems orch = registry" "enabled_systems orch \<inter> set known_providers \<noteq> {}"
  shows "\<exists>res. consensus kind orch input now = Inr res"
  using consensus_fields[OF assms, of kind input now] by blast

lemma gate_open_deploy:
  "is_authenticated m \<Longrightarrow>
     dict_get (manus_result m (Deploy r v e n)) ''status'' = PStr ''success''
   \<and> \<not> dict_has (manus_result m (Deploy r v e n)) ''error''
   \<and> operation_log (manus_step m (Deploy r v e n))
        = operation_log m @ [manus_result m (Deploy r v e n)]"
  by (simp add: deploy_def Let_def dict_get_def dict_has_def count_total_def count_successful_def)

lemma gate_open_dispatch:
  assumes "is_authenticated m" "dispatches c" "ai_systems (ai_orchestrator m) = registry"
    and "enabled_systems (ai_orchestrator m) \<inter> set known_providers \<noteq> {}"
  shows "dict_get (manus_result m c) ''status'' = PStr ''success''
       \<and> \<not> dict_has (manus_result m c) ''error''
       \<and> operation_log (manus_step m c) = operation_log m @ [manus_result m c]"
proof (cases c)
  case (GenerateCode f d r n)
  obtain res where "generate_code_consensus (ai_orchestrator m) (''Generate Python code for: '' @ d) n = Inr res"
    using consensus_returns[OF assms(3,4), of GENERATE_CODE] by auto
  then show ?thesis using assms(1)
    by (simp add: GenerateCode generate_code_def Let_def orchestrator_count_total
        dict_get_def dict_has_def count_total_def count_successful_def)
next
  case (AnalyzeCode code f n)
  obtain res where "analyze_code_consensus (ai_orchestrator m) code n = Inr res"
    using consensus_returns[OF assms(3,4), of ANALYZE_CODE] by auto
  then show ?thesis using assms(1)
    by (simp add: AnalyzeCode analyze_code_def Let_def orchestrator_count_total
        dict_get_def dict_has_def count_total_def count_successful_def)
next
  case (AskQuestion q n)
  obtain res where "answer_question_consensus (ai_orchestrator m) q n = Inr res"
    using consensus_returns[OF assms(3,4), of ANSWER_QUESTION] by auto
  then show ?thesis using assms(1)
    by (simp add: AskQuestion ask_question_def Let_def orchestrator_count_total
        dict_get_def dict_has_def count_total_def count_successful_def)
qed (use assms(2) in simp_all)

lemma gate_open:
  assumes "gated c" "is_authenticated m"
    and "dispatches c \<longrightarrow> ai_systems (ai_orchestrator m) = registry
            \<and> enabled_systems (ai_orchestrator m) \<inter> set known_providers \<noteq> {}"
  shows "dict_get (manus_result m c) ''status'' = PStr ''success''
       \<and> \<not> dict_has (manus_result m c) ''error''
       \<and> operation_log (manus_step m c) = operation_log m @ [manus_result m c]"
proof (cases "dispatches c")
  case True
  then show ?thesis using gate_open_dispatch[OF assms(2) True] assms(3) by blast
next
  case False
  then obtain r v e n where "c = Deploy r v e n" using assms(1) by (cases c) simp_all
  then show ?thesis using gate_open_deploy[OF assms(2)] by simp
qed

text \<open>
  Claim C8, as amended. Each of the seven gated operations of \<^verbatim>\<open>GitHubAutomation\<close>, when
  \<^verbatim>\<open>authenticated\<close> is false, returns the not-authenticated error and leaves the object
  unchanged, and when it is true, returns a dictionary with a status of success (\<open>open\<close>
  for a new pull request) and no error. Each of the four gated operations of
  \<^verbatim>\<open>ManusAISystem\<close>, when \<^verbatim>\<open>is_authenticated\<close> is false, returns the not-authenticated error
  and leaves the system unchanged; when it is true, \<^verbatim>\<open>deploy\<close> succeeds, and
  \<^verbatim>\<open>generate_code\<close>, \<^verbatim>\<open>analyze_code\<close> and \<^verbatim>\<open>ask_question\<close> succeed if at least one provider of
  the registry is enabled: the result has status \<open>success\<close> and no error and is appended
  to the operation log.
\<close>

theorem authentication_gate:
  "(\<not> authenticated g \<longrightarrow> github_apply g gc = (not_authenticated, g))
   \<and> (authenticated g \<longrightarrow>
         dict_get (fst (github_apply g gc)) ''status'' = PStr (success_status gc)
       \<and> \<not> dict_has (fst (github_apply g gc)) ''error'')
   \<and> (gated c \<and> \<not> is_authenticated m \<longrightarrow>
         manus_result m c = [(''error'', PStr ''Not authenticated'')] \<and> manus_step m c = m)
   \<and> (gated c \<and> is_authenticated m
        \<and> (dispatches c \<longrightarrow> ai_systems (ai_orchestrator m) = registry
              \<and> enabled_systems (ai_orchestrator m) \<inter> set known_providers \<noteq> {}) \<longrightarrow>
         dict_get (manus_result m c) ''status'' = PStr ''success''
       \<and> \<not> dict_has (manus_result m c) ''error''
       \<and> operation_log (manus_step m c) = operation_log m @ [manus_result m c])"
  using github_not_authenticated[of g gc] github_authenticated[of g gc] gate_closed[of c m]
    gate_open[of c m]
  by blast

theorem authentication_gate_witness:
  "\<not> authenticated (github_init None)
   \<and> github_apply (github_init None) (Commit ''repo'' ''msg'' [''a.py''] ''main'' ''t'')
        = (not_authenticated, github_init None)
   \<and> authenticated (snd (authenticate (github_init None) ''token''))
   \<and> dict_get (fst (github_apply (snd (authenticate (github_init None) ''token''))
                       (Commit ''repo'' ''msg'' [''a.py''] ''main'' ''t''))) ''status''
        = PStr ''success''
   \<and> gated (AskQuestion ''why'' ''t'')
   \<and> \<not> is_authenticated manus_init
   \<and> manus_step manus_init (AskQuestion ''why'' ''t'') = manus_init
   \<and> is_authenticated (snd (initialize manus_init ''token'' ''t''))
   \<and> dispatches (AskQuestion ''why'' ''t'')
   \<and> ai_systems (ai_orchestrator (snd (initialize manus_init ''token'' ''t''))) = registry
   \<and> enabled_systems (ai_orchestrator (snd (initialize manus_init ''token'' ''t'')))
        \<inter> set known_providers \<noteq> {}
   \<and> dict_get (manus_result (snd (initialize manus_init ''token'' ''t'')) (AskQuestion ''why'' ''t''))
        ''status'' = PStr ''success''"
proof -
  let ?g0 = "github_init None"
  let ?g1 = "snd (authenticate (github_init None) ''token'')"
  let ?gc = "Commit ''repo'' ''msg'' [''a.py''] ''main'' ''t''"
  let ?m1 = "snd (initialize manus_init ''token'' ''t'')"
  let ?c = "AskQuestion ''why'' ''t''"
  have g0: "\<not> authenticated ?g0" by (simp add: github_init_def)
  have g1: "authenticated ?g1" by (simp add: authenticate_def)
  have c: "gated ?c" "dispatches ?c" by simp_all
  have m0: "\<not> is_authenticated manus_init" by (simp add: manus_init_def)
  have m1: "is_authenticated ?m1" by (rule initialized_authenticated)
  have r: "ai_systems (ai_orchestrator ?m1) = registry"
    by (simp add: initialized_orchestrator init_registry)
  have e: "enabled_systems (ai_orchestrator ?m1) \<inter> set known_providers \<noteq> {}"
    by (simp add: initialized_orchestrator init_enabled known_providers_eq)
  have s: "success_status ?gc = ''success''" by simp
  have a0: "github_apply ?g0 ?gc = (not_authenticated, ?g0)"
    and b0: "manus_step manus_init ?c = manus_init"
    using authentication_gate[of ?g0 ?gc ?c manus_init] g0 c m0 by blast+
  have a1: "dict_get (fst (github_apply ?g1 ?gc)) ''status'' = PStr ''success''"
    and b1: "dict_get (manus_result ?m1 ?c) ''status'' = PStr ''success''"
    using authentication_gate[of ?g1 ?gc ?c ?m1] g1 c m1 r e unfolding s by blast+
  show ?thesis using g0 a0 g1 a1 c m0 b0 m1 r e b1 by blast
qed

text \<open>
  The claim as stated fails: an authenticated system whose five providers have been
  disabled answers \<^verbatim>\<open>ask_question\<close> with an error.
\<close>

theorem authenticated_failure_counterexample:
  "gated (AskQuestion ''why'' ''t'')
   \<and> is_authenticated (foldl manus_step manus_init
         [Initialize ''token'' ''t'', OnOrchestrator (DisableAI CLAUDE),
          OnOrchestrator (DisableAI DEEPSEEK), OnOrchestrator (DisableAI PERPLEXITY),
          OnOrchestrator (DisableAI GEMINI), OnOrchestrator (DisableAI GROK)])
   \<and> manus_result (foldl manus_step manus_init
         [Initialize ''token'' ''t'', OnOrchestrator (DisableAI CLAUDE),
          OnOrchestrator (DisableAI DEEPSEEK), OnOrchestrator (DisableAI PERPLEXITY),
          OnOrchestrator (DisableAI GEMINI), OnOrchestrator (DisableAI GROK)])
        (AskQuestion ''why'' ''t'') = [(''error'', PStr ''division by zero'')]"
proof -
  let ?m = "foldl manus_step manus_init
         [Initialize ''token'' ''t'', OnOrchestrator (DisableAI CLAUDE),
          OnOrchestrator (DisableAI DEEPSEEK), OnOrchestrator (DisableAI PERPLEXITY),
          OnOrchestrator (DisableAI GEMINI), OnOrchestrator (DisableAI GROK)]"
  have a: "is_authenticated ?m" by (rule all_disabled_authenticated)
  have q: "answer_question_consensus (ai_orchestrator ?m) ''why'' ''t'' = Inl ZeroDivisionError"
    unfolding all_disabled_system
    by (simp add: answer_question_consensus_def enabled_integrations_def avg_confidence_def
        orchestrator_init_def dict_set_def)
  have "manus_result ?m (AskQuestion ''why'' ''t'') = [(''error'', PStr ''division by zero'')]"
    unfolding manus_result.simps
    using a q by (simp add: ask_question_def Let_def orchestrator_count_total del: foldl_Cons)
  then show ?thesis using a by simp
qed

subsection \<open>The logs and their recent entries\<close>

lemma slice_from_last: "0 < n \<Longrightarrow> slice_from xs (- int n) = drop (length xs - n) xs"
  by (simp add: slice_from_def nat_diff_distrib' max_def)

lemma history_last_limit:
  "0 < limit \<Longrightarrow>
     get_commit_history g limit = drop (length (commit_history g) - nat limit) (commit_history g)
   \<and> get_pr_history g limit = drop (length (pr_history g) - nat limit) (pr_history g)"
  using slice_from_last[of "nat limit" "commit_history g"]
    slice_from_last[of "nat limit" "pr_history g"]
  by (simp add: get_commit_history_def get_pr_history_def)

lemma recent_operations_last:
  "recent_operations m = drop (length (operation_log m) - 10) (operation_log m)"
  using slice_from_last[of 10 "operation_log m"] by (simp add: recent_operations_def)

lemma operation_log_append_only:
  "\<exists>new. operation_log (manus_step m c) = operation_log m @ new"
  by (cases c)
     (simp_all add: initialize_def generate_code_def analyze_code_def ask_question_def deploy_def
        Let_def count_total_def count_failed_def count_successful_def split: sum.splits)

lemma histories_append_only:
  "(\<exists>new. commit_history (snd (github_apply g c)) = commit_history g @ new)
   \<and> (\<exists>new. pr_history (snd (github_apply g c)) = pr_history g @ new)
   \<and> (\<exists>new. branch_history (snd (github_apply g c)) = branch_history g @ new)"
  by (cases c)
     (simp_all add: create_branch_def commit_def create_pull_request_def merge_pull_request_def
        push_to_repository_def create_release_def deploy_to_production_def Let_def)

lemma history_limit_zero:
  "get_commit_history g 0 = commit_history g \<and> get_pr_history g 0 = pr_history g"
  by (simp add: get_commit_history_def get_pr_history_def slice_from_def)

text \<open>
  Claim C7, at the input where the code departs from it. After one commit,
  \<^verbatim>\<open>get_commit_history(0)\<close> returns the whole history, one entry, where the last 0 entries
  are none: \<^verbatim>\<open>self.commit_history[-0:]\<close> is \<^verbatim>\<open>self.commit_history[0:]\<close>. (For a positive
  limit the last \<^verbatim>\<open>limit\<close> entries are returned in the order of insertion, the status
  shows the last 10 entries of the operation log, and the logs only grow: the lemmas
  above.)
\<close>

theorem commit_history_limit_zero:
  "authenticated (snd (authenticate (github_init None) ''token''))
   \<and> length (commit_history (snd (commit (snd (authenticate (github_init None) ''token''))
               ''repo'' ''msg'' [''a.py''] ''main'' ''t''))) = 1
   \<and> get_commit_history
        (snd (commit (snd (authenticate (github_init None) ''token''))
               ''repo'' ''msg'' [''a.py''] ''main'' ''t'')) 0
      = commit_history (snd (commit (snd (authenticate (github_init None) ''token''))
               ''repo'' ''msg'' [''a.py''] ''main'' ''t''))
   \<and> get_commit_history
        (snd (commit (snd (authenticate (github_init None) ''token''))
               ''repo'' ''msg'' [''a.py''] ''main'' ''t'')) 0 \<noteq> []"
  by (simp add: get_commit_history_def slice_from_def commit_def authenticate_def github_init_def
      Let_def)

end
